theory Spec2Isabelle
  imports Complex_Main "HOL-Library.AList" "HOL-Library.Sublist"
    "HOL-Library.Char_ord" "HOL-Library.List_Lexorder"
begin

section \<open>Parameter conversion for compact binaries (bilby.gw.conversion)\<close>

text \<open>
  A shallow embedding of \<^verbatim>\<open>src/bilby/gw/conversion.py\<close>.

  Numbers are exact reals, except where a subsection says otherwise: \<^verbatim>\<open>x ** n\<close> with
  an integer literal \<open>n\<close> is \<open>x ^ n\<close>, \<^verbatim>\<open>x ** y\<close> with a fractional literal is
  \<open>x powr y\<close>, \<^verbatim>\<open>np.sqrt\<close> is \<open>sqrt\<close> and \<^verbatim>\<open>np.cbrt\<close> is \<open>root 3\<close>. Inside the
  closed formulas of the mass and tidal algebra Python's \<^verbatim>\<open>/\<close> is HOL's division,
  which is total; overflow, \<^verbatim>\<open>nan\<close>, \<^verbatim>\<open>inf\<close> and the complex results of a negative base
  under a fractional power have no counterpart there, so every theorem about a value
  computed by a formula carries the hypotheses that keep each denominator non-zero and
  each base of a fractional power non-negative. A division that a conversion writes
  directly on the values of a sample is \<open>truediv\<close> below, which raises
  \<^verbatim>\<open>ZeroDivisionError\<close> on a zero divisor as the division of Python's floats does.

  The conversions of a sample are modelled on a single point (a \<^verbatim>\<open>dict\<close>); on a table
  the same code runs with columns for values. Code outside this file (astropy's
  cosmology, lalsimulation's frame transform, the equation-of-state classes, the
  likelihood) is a parameter of the function that calls it.
\<close>

subsection \<open>Errors\<close>

text \<open>
  A function that can raise returns a sum: \<open>Inl\<close> the exception, \<open>Inr\<close> the value.
  \<open>ExternalError\<close> is an exception raised by a collaborator outside this file.
\<close>

datatype error =
  KeyError string | ValueError string | TypeError | IndexError | AttributeError
  | ZeroDivisionError | ExternalError

subsection \<open>Mass algebra (lines 400--670)\<close>

definition total_mass_and_mass_ratio_to_component_masses :: "real \<Rightarrow> real \<Rightarrow> real \<times> real" where
  "total_mass_and_mass_ratio_to_component_masses mass_ratio total_mass =
     (let mass_1 = total_mass / (1 + mass_ratio);
          mass_2 = mass_1 * mass_ratio
      in (mass_1, mass_2))"

definition chirp_mass_and_mass_ratio_to_total_mass :: "real \<Rightarrow> real \<Rightarrow> real" where
  "chirp_mass_and_mass_ratio_to_total_mass chirp_mass mass_ratio =
     chirp_mass * (1 + mass_ratio) powr 1.2 / mass_ratio powr 0.6"

definition chirp_mass_and_mass_ratio_to_component_masses :: "real \<Rightarrow> real \<Rightarrow> real \<times> real" where
  "chirp_mass_and_mass_ratio_to_component_masses chirp_mass mass_ratio =
     (let total_mass = chirp_mass_and_mass_ratio_to_total_mass chirp_mass mass_ratio
      in total_mass_and_mass_ratio_to_component_masses mass_ratio total_mass)"

definition symmetric_mass_ratio_to_mass_ratio :: "real \<Rightarrow> real" where
  "symmetric_mass_ratio_to_mass_ratio symmetric_mass_ratio =
     (let temp = 1 / symmetric_mass_ratio / 2 - 1
      in temp - (temp ^ 2 - 1) powr 0.5)"

definition chirp_mass_and_total_mass_to_symmetric_mass_ratio :: "real \<Rightarrow> real \<Rightarrow> real" where
  "chirp_mass_and_total_mass_to_symmetric_mass_ratio chirp_mass total_mass =
     (chirp_mass / total_mass) powr (5 / 3)"

definition chirp_mass_and_primary_mass_to_mass_ratio :: "real \<Rightarrow> real \<Rightarrow> real" where
  "chirp_mass_and_primary_mass_to_mass_ratio chirp_mass mass_1 =
     (let a = (chirp_mass / mass_1) ^ 5;
          t0 = root 3 (9 * a + sqrt 3 * sqrt (27 * a ^ 2 - 4 * a ^ 3));
          t1 = root 3 2 * 3 powr (2 / 3);
          t2 = root 3 (2 / 3) * a
      in t2 / t0 + t0 / t1)"

definition component_masses_to_chirp_mass :: "real \<Rightarrow> real \<Rightarrow> real" where
  "component_masses_to_chirp_mass mass_1 mass_2 =
     (mass_1 * mass_2) powr 0.6 / (mass_1 + mass_2) powr 0.2"

definition component_masses_to_total_mass :: "real \<Rightarrow> real \<Rightarrow> real" where
  "component_masses_to_total_mass mass_1 mass_2 = mass_1 + mass_2"

definition component_masses_to_symmetric_mass_ratio :: "real \<Rightarrow> real \<Rightarrow> real" where
  "component_masses_to_symmetric_mass_ratio mass_1 mass_2 =
     min ((mass_1 * mass_2) / (mass_1 + mass_2) ^ 2) (1 / 4)"

definition component_masses_to_mass_ratio :: "real \<Rightarrow> real \<Rightarrow> real" where
  "component_masses_to_mass_ratio mass_1 mass_2 = mass_2 / mass_1"

definition mass_1_and_chirp_mass_to_mass_ratio :: "real \<Rightarrow> real \<Rightarrow> real" where
  "mass_1_and_chirp_mass_to_mass_ratio mass_1 chirp_mass =
     (let temp = (chirp_mass / mass_1) ^ 5;
          mass_ratio =
            (2 / 3 / (3 powr 0.5 * (27 * temp ^ 2 - 4 * temp ^ 3) powr 0.5 + 9 * temp)) powr (1 / 3) * temp
            + ((3 powr 0.5 * (27 * temp ^ 2 - 4 * temp ^ 3) powr 0.5 + 9 * temp) / (2 * 3 ^ 2)) powr (1 / 3)
      in mass_ratio)"

definition mass_2_and_chirp_mass_to_mass_ratio :: "real \<Rightarrow> real \<Rightarrow> real" where
  "mass_2_and_chirp_mass_to_mass_ratio mass_2 chirp_mass =
     1 / mass_1_and_chirp_mass_to_mass_ratio mass_2 chirp_mass"


subsection \<open>Double precision (lines 466--467)\<close>

text \<open>
  Python's floats are IEEE-754 binary64 numbers, and every arithmetic operation returns
  the exact result rounded to the nearest of them, ties to the even significand. For a
  non-zero real \<open>x\<close> with \<open>2\<^sup>e \<le> \<bar>x\<bar> < 2\<^sup>e\<^sup>+\<^sup>1\<close> the doubles near \<open>x\<close> are the multiples of
  \<open>2\<^sup>e\<^sup>-\<^sup>5\<^sup>2\<close>, so \<open>round_double\<close> rounds \<open>x / 2\<^sup>e\<^sup>-\<^sup>5\<^sup>2\<close> to an integer. The exponent is not
  bounded: overflow and subnormal numbers are absent, and \<open>round_double\<close> is the
  rounding of binary64 for \<open>2\<^sup>-\<^sup>1\<^sup>0\<^sup>2\<^sup>2 \<le> \<bar>x\<bar> < 2\<^sup>1\<^sup>0\<^sup>2\<^sup>4\<close>. \<^verbatim>\<open>x ** y\<close> is taken as
  correctly rounded.

  \<open>symmetric_mass_ratio_to_mass_ratio_double\<close> is lines 466--467 with every operation
  rounded, for an argument that is a double: \<^verbatim>\<open>1 / symmetric_mass_ratio\<close>, \<^verbatim>\<open>/ 2\<close>,
  \<^verbatim>\<open>- 1\<close>, then \<^verbatim>\<open>temp ** 2\<close>, \<^verbatim>\<open>- 1\<close>, \<^verbatim>\<open>** 0.5\<close> and the last subtraction.
\<close>

definition round_half_even :: "real \<Rightarrow> int" where
  "round_half_even y =
     (let f = \<lfloor>y\<rfloor>; r = y - of_int f
      in if r < 1 / 2 then f else if 1 / 2 < r then f + 1 else if even f then f else f + 1)"

definition round_double :: "real \<Rightarrow> real" where
  "round_double x =
     (if x = 0 then 0
      else (let e = \<lfloor>log 2 \<bar>x\<bar>\<rfloor>; ulp = 2 powr (of_int e - 52)
            in ulp * of_int (round_half_even (x / ulp))))"

definition symmetric_mass_ratio_to_mass_ratio_double :: "real \<Rightarrow> real" where
  "symmetric_mass_ratio_to_mass_ratio_double symmetric_mass_ratio =
     (let temp = round_double (round_double (round_double (1 / symmetric_mass_ratio) / 2) - 1)
      in round_double (temp - round_double (round_double (round_double (temp ^ 2) - 1) powr 0.5)))"

subsection \<open>Tidal algebra (lines 673--813)\<close>

definition lambda_1_lambda_2_to_lambda_tilde :: "real \<Rightarrow> real \<Rightarrow> real \<Rightarrow> real \<Rightarrow> real" where
  "lambda_1_lambda_2_to_lambda_tilde lambda_1 lambda_2 mass_1 mass_2 =
     (let eta = component_masses_to_symmetric_mass_ratio mass_1 mass_2;
          lambda_plus = lambda_1 + lambda_2;
          lambda_minus = lambda_1 - lambda_2
      in 8 / 13 * ((1 + 7 * eta - 31 * eta ^ 2) * lambda_plus
                   + (1 - 4 * eta) powr 0.5 * (1 + 9 * eta - 11 * eta ^ 2) * lambda_minus))"

definition lambda_1_lambda_2_to_delta_lambda_tilde :: "real \<Rightarrow> real \<Rightarrow> real \<Rightarrow> real \<Rightarrow> real" where
  "lambda_1_lambda_2_to_delta_lambda_tilde lambda_1 lambda_2 mass_1 mass_2 =
     (let eta = component_masses_to_symmetric_mass_ratio mass_1 mass_2;
          lambda_plus = lambda_1 + lambda_2;
          lambda_minus = lambda_1 - lambda_2
      in 1 / 2 * ((1 - 4 * eta) powr 0.5 * (1 - 13272 / 1319 * eta + 8944 / 1319 * eta ^ 2) * lambda_plus
                  + (1 - 15910 / 1319 * eta + 32850 / 1319 * eta ^ 2 + 3380 / 1319 * eta ^ 3) * lambda_minus))"

definition lambda_tilde_delta_lambda_tilde_to_lambda_1_lambda_2 ::
  "real \<Rightarrow> real \<Rightarrow> real \<Rightarrow> real \<Rightarrow> real \<times> real" where
  "lambda_tilde_delta_lambda_tilde_to_lambda_1_lambda_2 lambda_tilde delta_lambda_tilde mass_1 mass_2 =
     (let eta = component_masses_to_symmetric_mass_ratio mass_1 mass_2;
          coefficient_1 = 1 + 7 * eta - 31 * eta ^ 2;
          coefficient_2 = (1 - 4 * eta) powr 0.5 * (1 + 9 * eta - 11 * eta ^ 2);
          coefficient_3 = (1 - 4 * eta) powr 0.5 * (1 - 13272 / 1319 * eta + 8944 / 1319 * eta ^ 2);
          coefficient_4 = 1 - 15910 / 1319 * eta + 32850 / 1319 * eta ^ 2 + 3380 / 1319 * eta ^ 3;
          lambda_1 =
            (13 * lambda_tilde / 8 * (coefficient_3 - coefficient_4)
             - 2 * delta_lambda_tilde * (coefficient_1 - coefficient_2))
            / ((coefficient_1 + coefficient_2) * (coefficient_3 - coefficient_4)
               - (coefficient_1 - coefficient_2) * (coefficient_3 + coefficient_4));
          lambda_2 =
            (13 * lambda_tilde / 8 * (coefficient_3 + coefficient_4)
             - 2 * delta_lambda_tilde * (coefficient_1 + coefficient_2))
            / ((coefficient_1 - coefficient_2) * (coefficient_3 + coefficient_4)
               - (coefficient_1 + coefficient_2) * (coefficient_3 - coefficient_4))
      in (lambda_1, lambda_2))"

definition lambda_tilde_to_lambda_1_lambda_2 :: "real \<Rightarrow> real \<Rightarrow> real \<Rightarrow> real \<times> real" where
  "lambda_tilde_to_lambda_1_lambda_2 lambda_tilde mass_1 mass_2 =
     (let eta = component_masses_to_symmetric_mass_ratio mass_1 mass_2;
          q = mass_2 / mass_1;
          lambda_1 = 13 / 8 * lambda_tilde
            / ((1 + 7 * eta - 31 * eta ^ 2) * (1 + inverse (q ^ 5))
               + (1 - 4 * eta) powr 0.5 * (1 + 9 * eta - 11 * eta ^ 2) * (1 - inverse (q ^ 5)));
          lambda_2 = lambda_1 / q ^ 5
      in (lambda_1, lambda_2))"

subsection \<open>Spin conversion (lines 90--150)\<close>

text \<open>
  The frame transform of lalsimulation is not part of this repository: it is the
  parameter \<open>lalsim\<close>, which takes the eleven arguments and returns the seven results or
  raises. \<^verbatim>\<open>tilt_1 in [0, np.pi]\<close> compares with \<open>0\<close> and \<open>pi\<close> exactly.
\<close>

type_synonym spin_args = "real \<times> real \<times> real \<times> real \<times> real \<times> real \<times> real \<times> real \<times> real \<times> real \<times> real"
type_synonym spin_result = "real \<times> real \<times> real \<times> real \<times> real \<times> real \<times> real"

definition bilby_to_lalsimulation_spins ::
  "(spin_args \<Rightarrow> error + spin_result) \<Rightarrow> real \<Rightarrow> real \<Rightarrow> real \<Rightarrow> real \<Rightarrow> real \<Rightarrow> real \<Rightarrow> real
     \<Rightarrow> real \<Rightarrow> real \<Rightarrow> real \<Rightarrow> real \<Rightarrow> error + spin_result" where
  "bilby_to_lalsimulation_spins lalsim theta_jn phi_jl tilt_1 tilt_2 phi_12 a_1 a_2 mass_1 mass_2
       reference_frequency phase =
     (if (a_1 = 0 \<or> tilt_1 \<in> set [0, pi]) \<and> (a_2 = 0 \<or> tilt_2 \<in> set [0, pi]) then
        (let spin_1x = 0;
             spin_1y = 0;
             spin_1z = a_1 * cos tilt_1;
             spin_2x = 0;
             spin_2y = 0;
             spin_2z = a_2 * cos tilt_2;
             iota = theta_jn
         in Inr (iota, spin_1x, spin_1y, spin_1z, spin_2x, spin_2y, spin_2z))
      else
        lalsim (theta_jn, phi_jl, tilt_1, tilt_2, phi_12, a_1, a_2, mass_1, mass_2,
                reference_frequency, phase))"

subsection \<open>Samples\<close>

text \<open>
  A sample is a Python \<^verbatim>\<open>dict\<close> from parameter names to values. It is an association
  list in insertion order, since \<^verbatim>\<open>added_keys\<close> is read off the order of the keys:
  \<^verbatim>\<open>d[k] = v\<close> replaces the value of a present key in place and appends an absent one,
  which is \<open>AList.update\<close>; \<^verbatim>\<open>d[k]\<close> raises \<^verbatim>\<open>KeyError\<close> on an absent key.
  A value is a float, a complex number (the matched-filter SNR), a boolean
  (\<^verbatim>\<open>eos_check\<close>) or \<^verbatim>\<open>None\<close> (which the neutron-star conversion tests for).
  Arithmetic takes a boolean as 0 or 1 and raises \<^verbatim>\<open>TypeError\<close> on \<^verbatim>\<open>None\<close>; on a
  complex operand Python would go on in complex arithmetic, which has no counterpart
  here: the model stops with \<open>TypeError\<close> there too.
\<close>

datatype val = Num real | Cplx complex | BoolV bool | NoneV

type_synonym sample = "(string \<times> val) list"

definition keys_of :: "sample \<Rightarrow> string list" where
  "keys_of d = map fst d"

definition contains :: "sample \<Rightarrow> string \<Rightarrow> bool" where
  "contains d k = (k \<in> set (keys_of d))"

definition getitem :: "sample \<Rightarrow> string \<Rightarrow> error + val" where
  "getitem d k = (case map_of d k of None \<Rightarrow> Inl (KeyError k) | Some v \<Rightarrow> Inr v)"

definition setitem :: "sample \<Rightarrow> string \<Rightarrow> val \<Rightarrow> sample" where
  "setitem d k v = AList.update k v d"

definition bindE :: "error + 'a \<Rightarrow> ('a \<Rightarrow> error + 'b) \<Rightarrow> error + 'b" where
  "bindE m f = (case m of Inl e \<Rightarrow> Inl e | Inr x \<Rightarrow> f x)"

fun num_of :: "val \<Rightarrow> error + real" where
  "num_of (Num x) = Inr x"
| "num_of (BoolV b) = Inr (if b then 1 else 0)"
| "num_of (Cplx c) = Inl TypeError"
| "num_of NoneV = Inl TypeError"

definition lift1 :: "(real \<Rightarrow> real) \<Rightarrow> val \<Rightarrow> error + val" where
  "lift1 f v = bindE (num_of v) (\<lambda>x. Inr (Num (f x)))"

definition lift2 :: "(real \<Rightarrow> real \<Rightarrow> real) \<Rightarrow> val \<Rightarrow> val \<Rightarrow> error + val" where
  "lift2 f v w = bindE (num_of v) (\<lambda>x. bindE (num_of w) (\<lambda>y. Inr (Num (f x y))))"

text \<open>\<^verbatim>\<open>v / w\<close> on two values of a sample.\<close>

definition truediv :: "val \<Rightarrow> val \<Rightarrow> error + val" where
  "truediv v w =
     bindE (num_of v) (\<lambda>x. bindE (num_of w) (\<lambda>y.
     if y = 0 then Inl ZeroDivisionError else Inr (Num (x / y))))"

subsection \<open>Component masses (lines 1007--1166)\<close>

definition check_and_return_quietly :: "bool \<Rightarrow> sample \<Rightarrow> error + sample" where
  "check_and_return_quietly require_add sample =
     (if require_add then Inl (KeyError ''Insufficient mass parameters in input dictionary'')
      else Inr sample)"

text \<open>Lines 1055--1084: \<^verbatim>\<open>mass_1_key\<close> is in the sample.\<close>

definition gcm_mass_1_present ::
  "sample \<Rightarrow> bool \<Rightarrow> string \<Rightarrow> string \<Rightarrow> string \<Rightarrow> string \<Rightarrow> error + sample" where
  "gcm_mass_1_present sample require_add mass_1_key mass_2_key total_mass_key chirp_mass_key =
     (let output_sample = sample;
          add_mass_2 = (\<lambda>output_sample.
            bindE (getitem output_sample ''mass_ratio'') (\<lambda>q.
            bindE (getitem output_sample mass_1_key) (\<lambda>m1.
            bindE (lift2 (*) q m1) (\<lambda>m2.
            Inr (setitem output_sample mass_2_key m2)))))
      in if contains sample mass_2_key then Inr output_sample
         else if contains sample total_mass_key then
           bindE (getitem output_sample total_mass_key) (\<lambda>t.
           bindE (getitem output_sample mass_1_key) (\<lambda>m1.
           bindE (lift2 (-) t m1) (\<lambda>m2.
           Inr (setitem output_sample mass_2_key m2))))
         else if contains sample ''mass_ratio'' then add_mass_2 output_sample
         else if contains sample ''symmetric_mass_ratio'' then
           bindE (getitem output_sample ''symmetric_mass_ratio'') (\<lambda>eta.
           bindE (lift1 symmetric_mass_ratio_to_mass_ratio eta) (\<lambda>q.
           add_mass_2 (setitem output_sample ''mass_ratio'' q)))
         else if contains sample chirp_mass_key then
           bindE (getitem output_sample mass_1_key) (\<lambda>m1.
           bindE (getitem output_sample chirp_mass_key) (\<lambda>mc.
           bindE (lift2 mass_1_and_chirp_mass_to_mass_ratio m1 mc) (\<lambda>q.
           add_mass_2 (setitem output_sample ''mass_ratio'' q))))
         else check_and_return_quietly require_add sample)"

text \<open>
  Lines 1086--1113: \<^verbatim>\<open>mass_2_key\<close> is in the sample and \<^verbatim>\<open>mass_1_key\<close> is not. In
  the last \<^verbatim>\<open>else\<close> (line 1107) the source calls \<^verbatim>\<open>check_and_return_quietly\<close> and drops
  what it returns: an exception propagates, a returned sample does not, and control
  goes on to line 1109.
\<close>

definition gcm_mass_2_present ::
  "sample \<Rightarrow> bool \<Rightarrow> string \<Rightarrow> string \<Rightarrow> string \<Rightarrow> string \<Rightarrow> error + sample" where
  "gcm_mass_2_present sample require_add mass_1_key mass_2_key total_mass_key chirp_mass_key =
     (let output_sample = sample;
          add_mass_1 = (\<lambda>output_sample.
            bindE (getitem output_sample ''mass_ratio'') (\<lambda>q.
            bindE (truediv (Num 1) q) (\<lambda>r.
            bindE (getitem output_sample mass_2_key) (\<lambda>m2.
            bindE (lift2 (*) r m2) (\<lambda>m1.
            Inr (setitem output_sample mass_1_key m1))))))
      in if contains sample total_mass_key then
           bindE (getitem output_sample total_mass_key) (\<lambda>t.
           bindE (getitem output_sample mass_2_key) (\<lambda>m2.
           bindE (lift2 (-) t m2) (\<lambda>m1.
           Inr (setitem output_sample mass_1_key m1))))
         else if contains sample ''mass_ratio'' then add_mass_1 output_sample
         else if contains sample ''symmetric_mass_ratio'' then
           bindE (getitem output_sample ''symmetric_mass_ratio'') (\<lambda>eta.
           bindE (lift1 symmetric_mass_ratio_to_mass_ratio eta) (\<lambda>q.
           add_mass_1 (setitem output_sample ''mass_ratio'' q)))
         else if contains sample chirp_mass_key then
           bindE (getitem output_sample mass_2_key) (\<lambda>m2.
           bindE (getitem output_sample chirp_mass_key) (\<lambda>mc.
           bindE (lift2 mass_2_and_chirp_mass_to_mass_ratio m2 mc) (\<lambda>q.
           add_mass_1 (setitem output_sample ''mass_ratio'' q))))
         else
           bindE (check_and_return_quietly require_add sample) (\<lambda>_.
           add_mass_1 output_sample))"

text \<open>Lines 1115--1166: neither component mass is in the sample.\<close>

definition gcm_no_component ::
  "sample \<Rightarrow> bool \<Rightarrow> string \<Rightarrow> string \<Rightarrow> string \<Rightarrow> string \<Rightarrow> error + sample" where
  "gcm_no_component sample require_add mass_1_key mass_2_key total_mass_key chirp_mass_key =
     (let output_sample = sample;
          add_both = (\<lambda>output_sample.
            if \<not> contains output_sample total_mass_key \<or> \<not> contains output_sample ''mass_ratio''
            then check_and_return_quietly require_add sample
            else
              bindE (getitem output_sample total_mass_key) (\<lambda>t.
              bindE (getitem output_sample ''mass_ratio'') (\<lambda>q.
              bindE (num_of q) (\<lambda>mass_ratio.
              bindE (num_of t) (\<lambda>total_mass.
              (case total_mass_and_mass_ratio_to_component_masses mass_ratio total_mass of
                 (mass_1, mass_2) \<Rightarrow>
                   Inr (setitem (setitem output_sample mass_1_key (Num mass_1))
                          mass_2_key (Num mass_2))))))));
          add_total = (\<lambda>output_sample.
            bindE (getitem output_sample chirp_mass_key) (\<lambda>mc.
            bindE (getitem output_sample ''mass_ratio'') (\<lambda>q.
            bindE (lift2 chirp_mass_and_mass_ratio_to_total_mass mc q) (\<lambda>t.
            add_both (setitem output_sample total_mass_key t)))))
      in if contains sample total_mass_key then
           (if contains sample ''mass_ratio'' then add_both output_sample
            else if contains sample ''symmetric_mass_ratio'' then
              bindE (getitem output_sample ''symmetric_mass_ratio'') (\<lambda>eta.
              bindE (lift1 symmetric_mass_ratio_to_mass_ratio eta) (\<lambda>q.
              add_both (setitem output_sample ''mass_ratio'' q)))
            else if contains sample chirp_mass_key then
              bindE (getitem output_sample chirp_mass_key) (\<lambda>mc.
              bindE (getitem output_sample total_mass_key) (\<lambda>t.
              bindE (lift2 chirp_mass_and_total_mass_to_symmetric_mass_ratio mc t) (\<lambda>eta.
              (let output_sample = setitem output_sample ''symmetric_mass_ratio'' eta
               in bindE (getitem output_sample ''symmetric_mass_ratio'') (\<lambda>eta.
                  bindE (lift1 symmetric_mass_ratio_to_mass_ratio eta) (\<lambda>q.
                  add_both (setitem output_sample ''mass_ratio'' q)))))))
            else check_and_return_quietly require_add sample)
         else if contains sample chirp_mass_key then
           (if contains sample ''mass_ratio'' then add_total output_sample
            else if contains sample ''symmetric_mass_ratio'' then
              bindE (getitem sample ''symmetric_mass_ratio'') (\<lambda>eta.
              bindE (lift1 symmetric_mass_ratio_to_mass_ratio eta) (\<lambda>q.
              add_total (setitem output_sample ''mass_ratio'' q)))
            else check_and_return_quietly require_add sample)
         else add_both output_sample)"

definition generate_component_masses :: "sample \<Rightarrow> bool \<Rightarrow> bool \<Rightarrow> error + sample" where
  "generate_component_masses sample require_add source =
     (let mass_1_key = (if source then ''mass_1_source'' else ''mass_1'');
          mass_2_key = (if source then ''mass_2_source'' else ''mass_2'');
          total_mass_key = (if source then ''total_mass_source'' else ''total_mass'');
          chirp_mass_key = (if source then ''chirp_mass_source'' else ''chirp_mass'')
      in if contains sample mass_1_key then
           gcm_mass_1_present sample require_add mass_1_key mass_2_key total_mass_key chirp_mass_key
         else if contains sample mass_2_key then
           gcm_mass_2_present sample require_add mass_1_key mass_2_key total_mass_key chirp_mass_key
         else
           gcm_no_component sample require_add mass_1_key mass_2_key total_mass_key chirp_mass_key)"


subsection \<open>Cosmology (lines 22--57)\<close>

text \<open>
  The distance functions delegate to astropy, which is not part of this repository. A
  cosmology is the four maps the source calls: the luminosity and comoving distance of
  a redshift, and their numerical inverses (\<^verbatim>\<open>z_at_value\<close>).
\<close>

record cosmology =
  luminosity_distance :: "real \<Rightarrow> real"
  comoving_distance :: "real \<Rightarrow> real"
  z_at_luminosity_distance :: "real \<Rightarrow> real"
  z_at_comoving_distance :: "real \<Rightarrow> real"

definition redshift_to_luminosity_distance :: "cosmology \<Rightarrow> real \<Rightarrow> real" where
  "redshift_to_luminosity_distance cosmology redshift = luminosity_distance cosmology redshift"

definition redshift_to_comoving_distance :: "cosmology \<Rightarrow> real \<Rightarrow> real" where
  "redshift_to_comoving_distance cosmology redshift = comoving_distance cosmology redshift"

definition luminosity_distance_to_redshift :: "cosmology \<Rightarrow> real \<Rightarrow> real" where
  "luminosity_distance_to_redshift cosmology distance = z_at_luminosity_distance cosmology distance"

definition comoving_distance_to_redshift :: "cosmology \<Rightarrow> real \<Rightarrow> real" where
  "comoving_distance_to_redshift cosmology distance = z_at_comoving_distance cosmology distance"

definition comoving_distance_to_luminosity_distance :: "cosmology \<Rightarrow> real \<Rightarrow> real" where
  "comoving_distance_to_luminosity_distance cosmology distance =
     (let redshift = comoving_distance_to_redshift cosmology distance
      in redshift_to_luminosity_distance cosmology redshift)"

subsection \<open>Base conversion for binary black holes (lines 166--268)\<close>

text \<open>\<^verbatim>\<open>np.mod(x, y)\<close> for floats: the remainder has the sign of \<open>y\<close>.\<close>

definition np_mod :: "real \<Rightarrow> real \<Rightarrow> real" where
  "np_mod x y = x - y * of_int \<lfloor>x / y\<rfloor>"

text \<open>
  Lines 204--211. \<^verbatim>\<open>key[-7:]\<close> is the last seven characters of the key (the whole
  key when it is shorter) and \<^verbatim>\<open>key[:-7]\<close> is the key without them.
\<close>

fun source_frame_loop :: "cosmology \<Rightarrow> sample \<Rightarrow> string list \<Rightarrow> sample \<Rightarrow> error + sample" where
  "source_frame_loop cosmology parameters [] converted_parameters = Inr converted_parameters"
| "source_frame_loop cosmology parameters (key # original_keys) converted_parameters =
     (if drop (length key - 7) key = ''_source'' then
        bindE
          (if \<not> contains converted_parameters ''redshift'' then
             bindE (getitem parameters ''luminosity_distance'') (\<lambda>d.
             bindE (lift1 (luminosity_distance_to_redshift cosmology) d) (\<lambda>z.
             Inr (setitem converted_parameters ''redshift'' z)))
           else Inr converted_parameters)
          (\<lambda>converted_parameters.
             bindE (getitem converted_parameters key) (\<lambda>v.
             bindE (getitem converted_parameters ''redshift'') (\<lambda>z.
             bindE (lift1 (\<lambda>z. 1 + z) z) (\<lambda>z1.
             bindE (lift2 (*) v z1) (\<lambda>w.
             source_frame_loop cosmology parameters original_keys
               (setitem converted_parameters (take (length key - 7) key) w))))))
      else source_frame_loop cosmology parameters original_keys converted_parameters)"

text \<open>
  Lines 216--245, one pass of the loop over \<^verbatim>\<open>idx\<close>. The \<^verbatim>\<open>try\<close> of line 235 catches
  the division by a zero spin magnitude and sets \<^verbatim>\<open>cos_tilt\<close> to 1; the division of
  lines 224--227 is outside it and raises.
\<close>

definition spin_magnitude_step :: "string list \<Rightarrow> string \<Rightarrow> sample \<Rightarrow> error + sample" where
  "spin_magnitude_step original_keys idx converted_parameters =
     (let key = ''chi_'' @ idx;
          chi_in_plane = ''chi_'' @ idx @ ''_in_plane'';
          a = ''a_'' @ idx;
          cos_tilt = ''cos_tilt_'' @ idx
      in if key \<in> set original_keys then
           (if chi_in_plane \<in> set original_keys then
              bindE (getitem converted_parameters key) (\<lambda>c.
              bindE (lift1 (\<lambda>c. c ^ 2) c) (\<lambda>c2.
              bindE (getitem converted_parameters chi_in_plane) (\<lambda>p.
              bindE (lift1 (\<lambda>p. p ^ 2) p) (\<lambda>p2.
              bindE (lift2 (\<lambda>c2 p2. (c2 + p2) powr 0.5) c2 p2) (\<lambda>av.
              (let converted_parameters = setitem converted_parameters a av
               in bindE (getitem converted_parameters key) (\<lambda>c.
                  bindE (getitem converted_parameters a) (\<lambda>av.
                  bindE (truediv c av) (\<lambda>ct.
                  Inr (setitem converted_parameters cos_tilt ct))))))))))
            else if a \<notin> set original_keys then
              bindE (getitem converted_parameters key) (\<lambda>c.
              bindE (lift1 abs c) (\<lambda>av.
              (let converted_parameters = setitem converted_parameters a av
               in bindE (getitem converted_parameters key) (\<lambda>c.
                  bindE (lift1 sgn c) (\<lambda>ct.
                  Inr (setitem converted_parameters cos_tilt ct))))))
            else
              bindE (getitem converted_parameters key) (\<lambda>c.
              bindE (getitem converted_parameters a) (\<lambda>av.
              bindE (num_of c) (\<lambda>c.
              bindE (num_of av) (\<lambda>av.
              Inr (setitem converted_parameters cos_tilt
                     (Num (if av = 0 then 1 else c / av))))))))
         else Inr converted_parameters)"

definition default_zero :: "string \<Rightarrow> sample \<Rightarrow> sample" where
  "default_zero key converted_parameters =
     (if \<not> contains converted_parameters key then setitem converted_parameters key (Num 0)
      else converted_parameters)"

definition angle_from_cosine :: "string \<Rightarrow> sample \<Rightarrow> error + sample" where
  "angle_from_cosine angle converted_parameters =
     (let cos_angle = ''cos_'' @ angle
      in if contains converted_parameters cos_angle then
           bindE (getitem converted_parameters cos_angle) (\<lambda>c.
           bindE (lift1 arccos c) (\<lambda>v.
           Inr (setitem converted_parameters angle v)))
         else Inr converted_parameters)"

definition convert_to_lal_binary_black_hole_parameters ::
  "cosmology \<Rightarrow> sample \<Rightarrow> error + sample \<times> string list" where
  "convert_to_lal_binary_black_hole_parameters cosmology parameters =
     (let converted_parameters = parameters;
          original_keys = keys_of converted_parameters
      in
      bindE
        (if ''luminosity_distance'' \<notin> set original_keys then
           (if contains converted_parameters ''redshift'' then
              bindE (getitem parameters ''redshift'') (\<lambda>z.
              bindE (lift1 (redshift_to_luminosity_distance cosmology) z) (\<lambda>d.
              Inr (setitem converted_parameters ''luminosity_distance'' d)))
            else if contains converted_parameters ''comoving_distance'' then
              bindE (getitem parameters ''comoving_distance'') (\<lambda>c.
              bindE (lift1 (comoving_distance_to_luminosity_distance cosmology) c) (\<lambda>d.
              Inr (setitem converted_parameters ''luminosity_distance'' d)))
            else Inr converted_parameters)
         else Inr converted_parameters) (\<lambda>converted_parameters.
      bindE (source_frame_loop cosmology parameters original_keys converted_parameters)
        (\<lambda>converted_parameters.
      bindE (generate_component_masses converted_parameters False False) (\<lambda>converted_parameters.
      bindE (spin_magnitude_step original_keys ''1'' converted_parameters) (\<lambda>converted_parameters.
      bindE (spin_magnitude_step original_keys ''2'' converted_parameters) (\<lambda>converted_parameters.
      (let converted_parameters = default_zero ''phi_jl'' converted_parameters;
           converted_parameters = default_zero ''phi_12'' converted_parameters
       in
      bindE (angle_from_cosine ''tilt_1'' converted_parameters) (\<lambda>converted_parameters.
      bindE (angle_from_cosine ''tilt_2'' converted_parameters) (\<lambda>converted_parameters.
      bindE (angle_from_cosine ''theta_jn'' converted_parameters) (\<lambda>converted_parameters.
      bindE
        (if ''delta_phase'' \<in> set original_keys then
           bindE (getitem converted_parameters ''delta_phase'') (\<lambda>dp.
           bindE (getitem converted_parameters ''theta_jn'') (\<lambda>th.
           bindE (lift1 (\<lambda>th. sgn (cos th)) th) (\<lambda>s.
           bindE (getitem converted_parameters ''psi'') (\<lambda>psi.
           bindE (lift2 (*) s psi) (\<lambda>sp.
           bindE (lift2 (\<lambda>dp sp. np_mod (dp - sp) (2 * pi)) dp sp) (\<lambda>ph.
           Inr (setitem converted_parameters ''phase'' ph)))))))
         else Inr converted_parameters) (\<lambda>converted_parameters.
      (let added_keys = filter (\<lambda>key. key \<notin> set original_keys) (keys_of converted_parameters)
       in Inr (converted_parameters, added_keys)))))))))))))"

subsection \<open>Base conversion for binary neutron stars (lines 271--397)\<close>

text \<open>
  The equation-of-state classes are not part of this repository. For a list of spectral
  coefficients, the collaborator gives the warning flag of
  \<^verbatim>\<open>SpectralDecompositionEOS\<close>, the mass that \<^verbatim>\<open>IntegrateTOV\<close> finds at the \<open>i\<close>-th
  central density of \<^verbatim>\<open>eos_family_physical_check\<close>, and the maximum mass and the tidal
  deformability of \<^verbatim>\<open>EOSFamily\<close>.
\<close>

record eos_collaborator =
  warning_flag :: "val list \<Rightarrow> bool"
  tov_mass :: "val list \<Rightarrow> nat \<Rightarrow> real"
  maximum_mass :: "val list \<Rightarrow> real"
  lambda_from_mass :: "val list \<Rightarrow> real \<Rightarrow> real"

fun tov_loop :: "(nat \<Rightarrow> real) \<Rightarrow> nat list \<Rightarrow> real list \<Rightarrow> real list" where
  "tov_loop m [] mdat = mdat"
| "tov_loop m (i # rest) mdat =
     (let mdat = mdat @ [m i]
      in if i > 0 \<and> mdat ! i \<le> mdat ! (i - 1) then mdat else tov_loop m rest mdat)"

definition eos_family_physical_check :: "eos_collaborator \<Rightarrow> val list \<Rightarrow> bool" where
  "eos_family_physical_check eos gammas =
     (let mdat = tov_loop (tov_mass eos gammas) [0..<8] []
      in if length mdat < 8 then False else True)"

fun getitems :: "sample \<Rightarrow> string list \<Rightarrow> error + val list" where
  "getitems d [] = Inr []"
| "getitems d (key # keys) =
     bindE (getitem d key) (\<lambda>v. bindE (getitems d keys) (\<lambda>vs. Inr (v # vs)))"

definition set_lambdas :: "sample \<Rightarrow> real \<times> real \<Rightarrow> sample" where
  "set_lambdas converted_parameters lambdas =
     (case lambdas of (lambda_1, lambda_2) \<Rightarrow>
        setitem (setitem converted_parameters ''lambda_1'' (Num lambda_1)) ''lambda_2'' (Num lambda_2))"

text \<open>Lines 321--324 and 326--329: \<^verbatim>\<open>lambda_2 = lambda_1 * mass_1**5 / mass_2**5\<close>.\<close>

definition lambda_2_from_lambda_1 :: "sample \<Rightarrow> error + sample" where
  "lambda_2_from_lambda_1 converted_parameters =
     bindE (getitem converted_parameters ''lambda_1'') (\<lambda>l1.
     bindE (getitem converted_parameters ''mass_1'') (\<lambda>m1.
     bindE (lift1 (\<lambda>m. m ^ 5) m1) (\<lambda>m15.
     bindE (lift2 (*) l1 m15) (\<lambda>num.
     bindE (getitem converted_parameters ''mass_2'') (\<lambda>m2.
     bindE (lift1 (\<lambda>m. m ^ 5) m2) (\<lambda>m25.
     bindE (truediv num m25) (\<lambda>l2.
     Inr (setitem converted_parameters ''lambda_2'' l2))))))))"

text \<open>Lines 330--354.\<close>

definition eos_unphysical :: "sample \<Rightarrow> sample" where
  "eos_unphysical converted_parameters =
     setitem (setitem (setitem converted_parameters ''lambda_1'' (Num 0)) ''lambda_2'' (Num 0))
       ''eos_check'' (BoolV False)"

definition lambdas_from_eos :: "eos_collaborator \<Rightarrow> string list \<Rightarrow> sample \<Rightarrow> error + sample" where
  "lambdas_from_eos eos original_keys converted_parameters =
     (let eos_parameter_keys = sort (filter (sublist ''eos_spectral_gamma_'') original_keys)
      in bindE (getitems converted_parameters eos_parameter_keys) (\<lambda>gammas.
         if warning_flag eos gammas then Inr (eos_unphysical converted_parameters)
         else if eos_family_physical_check eos gammas then Inr (eos_unphysical converted_parameters)
         else
           bindE (getitem converted_parameters ''mass_1'') (\<lambda>m1.
           bindE (num_of m1) (\<lambda>m1.
           bindE (if m1 \<le> maximum_mass eos gammas then
                    bindE (getitem converted_parameters ''mass_2'') (\<lambda>m2.
                    bindE (num_of m2) (\<lambda>m2. Inr (m2 \<le> maximum_mass eos gammas)))
                  else Inr False) (\<lambda>below.
           if below then
             bindE (getitem converted_parameters ''mass_1'') (\<lambda>m1.
             bindE (lift1 (lambda_from_mass eos gammas) m1) (\<lambda>l1.
             (let converted_parameters = setitem converted_parameters ''lambda_1'' l1
              in bindE (getitem converted_parameters ''mass_2'') (\<lambda>m2.
                 bindE (lift1 (lambda_from_mass eos gammas) m2) (\<lambda>l2.
                 Inr (setitem converted_parameters ''lambda_2'' l2))))))
           else Inr (eos_unphysical converted_parameters))))))"

definition convert_to_lal_binary_neutron_star_parameters ::
  "cosmology \<Rightarrow> eos_collaborator \<Rightarrow> sample \<Rightarrow> error + sample \<times> string list" where
  "convert_to_lal_binary_neutron_star_parameters cosmology eos parameters =
     (let converted_parameters = parameters;
          original_keys = keys_of converted_parameters
      in
      bindE (convert_to_lal_binary_black_hole_parameters cosmology converted_parameters)
        (\<lambda>(converted_parameters, added_keys).
      if \<not> list_ex (contains converted_parameters)
             [''lambda_1'', ''lambda_2'', ''lambda_tilde'', ''delta_lambda_tilde'',
              ''eos_spectral_gamma_0'']
      then
        (let converted_parameters = setitem converted_parameters ''lambda_1'' (Num 0);
             converted_parameters = setitem converted_parameters ''lambda_2'' (Num 0);
             added_keys = added_keys @ [''lambda_1'', ''lambda_2'']
         in Inr (converted_parameters, added_keys))
      else
      bindE
        (if contains converted_parameters ''delta_lambda_tilde'' then
           bindE (getitem converted_parameters ''lambda_tilde'') (\<lambda>lt.
           bindE (getitem parameters ''delta_lambda_tilde'') (\<lambda>dlt.
           bindE (getitem converted_parameters ''mass_1'') (\<lambda>m1.
           bindE (getitem converted_parameters ''mass_2'') (\<lambda>m2.
           bindE (num_of lt) (\<lambda>lt. bindE (num_of dlt) (\<lambda>dlt.
           bindE (num_of m1) (\<lambda>m1. bindE (num_of m2) (\<lambda>m2.
           Inr (set_lambdas converted_parameters
                  (lambda_tilde_delta_lambda_tilde_to_lambda_1_lambda_2 lt dlt m1 m2))))))))))
         else if contains converted_parameters ''lambda_tilde'' then
           bindE (getitem converted_parameters ''lambda_tilde'') (\<lambda>lt.
           bindE (getitem converted_parameters ''mass_1'') (\<lambda>m1.
           bindE (getitem converted_parameters ''mass_2'') (\<lambda>m2.
           bindE (num_of lt) (\<lambda>lt. bindE (num_of m1) (\<lambda>m1. bindE (num_of m2) (\<lambda>m2.
           Inr (set_lambdas converted_parameters
                  (lambda_tilde_to_lambda_1_lambda_2 lt m1 m2))))))))
         else Inr converted_parameters) (\<lambda>converted_parameters.
      bindE
        (if \<not> contains converted_parameters ''lambda_2'' \<and> contains converted_parameters ''lambda_1''
         then lambda_2_from_lambda_1 converted_parameters
         else if contains converted_parameters ''lambda_2''
                 \<and> getitem converted_parameters ''lambda_2'' = Inr NoneV
         then lambda_2_from_lambda_1 converted_parameters
         else if contains converted_parameters ''eos_spectral_gamma_0''
         then lambdas_from_eos eos original_keys converted_parameters
         else Inr converted_parameters) (\<lambda>converted_parameters.
      (let added_keys = filter (\<lambda>key. key \<notin> set original_keys) (keys_of converted_parameters)
       in Inr (converted_parameters, added_keys))))))"

subsection \<open>Tables, the likelihood and the store\<close>

text \<open>
  A \<^verbatim>\<open>DataFrame\<close> is its number of rows and its columns in order, each column a
  \<^verbatim>\<open>dtype\<close> and one value per row. The row labels are \<open>0, 1, \<dots>\<close> in every table of the
  model, and there is no \<^verbatim>\<open>nan\<close> among reals, so \<^verbatim>\<open>DataFrame.equals\<close>, which compares
  the shape, the labels, the dtype of each column and each cell, is the equality of
  these records.

  The values of the model have four kinds, and \<open>Num\<close> is a float. \<^verbatim>\<open>np.array\<close> gives a
  list of values the least dtype in the order \<^verbatim>\<open>bool\<close>, \<^verbatim>\<open>int64\<close>, \<^verbatim>\<open>float64\<close>,
  \<^verbatim>\<open>complex128\<close>, \<^verbatim>\<open>object\<close> that holds them all (\<^verbatim>\<open>float64\<close> for no value) and
  converts each value to it. \<^verbatim>\<open>int64\<close> is the dtype of no value of the model; a table
  that is given can have such a column.
\<close>

datatype dtype = Bool_dtype | Int64 | Float64 | Complex128 | Object_dtype

fun dtype_rank :: "dtype \<Rightarrow> nat" where
  "dtype_rank Bool_dtype = 0"
| "dtype_rank Int64 = 1"
| "dtype_rank Float64 = 2"
| "dtype_rank Complex128 = 3"
| "dtype_rank Object_dtype = 4"

definition promote :: "dtype \<Rightarrow> dtype \<Rightarrow> dtype" where
  "promote s t = (if dtype_rank s \<le> dtype_rank t then t else s)"

fun dtype_of :: "val \<Rightarrow> dtype" where
  "dtype_of (Num x) = Float64"
| "dtype_of (Cplx c) = Complex128"
| "dtype_of (BoolV b) = Bool_dtype"
| "dtype_of NoneV = Object_dtype"

definition array_dtype :: "val list \<Rightarrow> dtype" where
  "array_dtype vs = (case vs of [] \<Rightarrow> Float64 | v # ws \<Rightarrow> fold promote (map dtype_of ws) (dtype_of v))"

fun astype :: "dtype \<Rightarrow> val \<Rightarrow> val" where
  "astype Float64 (BoolV b) = Num (if b then 1 else 0)"
| "astype Complex128 (BoolV b) = Cplx (if b then 1 else 0)"
| "astype Complex128 (Num x) = Cplx (complex_of_real x)"
| "astype t v = v"

text \<open>
  \<^verbatim>\<open>iterrows\<close> gives each row with its label. A row is a \<^verbatim>\<open>Series\<close> and has one dtype:
  that of the columns when they agree, the greater numeric one among numeric columns,
  and \<^verbatim>\<open>object\<close> (the values as they are) otherwise; \<^verbatim>\<open>dict(row)\<close> is the row as a
  sample.
\<close>

definition row_dtype :: "dtype list \<Rightarrow> dtype" where
  "row_dtype ts =
     (case ts of
        [] \<Rightarrow> Object_dtype
      | t # us \<Rightarrow>
          if Bool_dtype \<in> set ts \<and> list_ex (\<lambda>u. u \<noteq> Bool_dtype) ts then Object_dtype
          else fold promote us t)"

record dataframe =
  df_nrows :: nat
  df_columns :: "(string \<times> dtype \<times> val list) list"

definition iterrows :: "dataframe \<Rightarrow> (nat \<times> sample) list" where
  "iterrows df =
     (let t = row_dtype (map (\<lambda>(key, dtype, column). dtype) (df_columns df))
      in map (\<lambda>i. (i, map (\<lambda>(key, dtype, column). (key, astype t (column ! i))) (df_columns df)))
           [0..<df_nrows df])"

text \<open>
  \<^verbatim>\<open>samples[key] = column\<close> replaces or appends a column and raises \<^verbatim>\<open>ValueError\<close> when
  the column is not as long as the table.
\<close>

definition set_column :: "dataframe \<Rightarrow> string \<Rightarrow> dtype \<Rightarrow> val list \<Rightarrow> error + dataframe" where
  "set_column df key dtype column =
     (if length column \<noteq> df_nrows df
      then Inl (ValueError ''Length of values does not match length of index'')
      else Inr (df\<lparr>df_columns := AList.update key (dtype, column) (df_columns df)\<rparr>))"

text \<open>
  The functions below assign into the object they are passed, so the objects live in a
  store: a reference is an address, and a caller that holds the same address sees every
  assignment. What a reference holds is a single point (\<^verbatim>\<open>dict\<close>), a table
  (\<^verbatim>\<open>DataFrame\<close>) or an object of another type.
\<close>

datatype samples = Point sample | Table dataframe | Unsupported

type_synonym ref = nat
type_synonym store = "ref \<Rightarrow> samples"

text \<open>
  The likelihood is a collaborator outside this file. It carries its mutable
  \<^verbatim>\<open>parameters\<close>, the list \<^verbatim>\<open>_marginalized_parameters\<close> (empty when the attribute is
  absent, as \<^verbatim>\<open>getattr\<close> with a default gives), \<^verbatim>\<open>outdir\<close> and \<^verbatim>\<open>label\<close> (absent:
  \<open>None\<close>), the names of its interferometers, and three operations that read the
  parameters: the draw \<^verbatim>\<open>generate_posterior_sample_from_marginalized_likelihood\<close>, taken
  as a function of the parameters, \<^verbatim>\<open>calculate_snrs\<close> on the strain of a sample for
  an interferometer, giving \<^verbatim>\<open>complex_matched_filter_snr\<close> and \<^verbatim>\<open>optimal_snr_squared\<close>,
  and \<^verbatim>\<open>compute_per_detector_log_likelihood\<close>, which gives a \<^verbatim>\<open>dict\<close> of its own and is
  \<open>None\<close> when the attribute is not callable.
\<close>

record likelihood =
  lik_parameters :: sample
  marginalized_parameters :: "string list"
  lik_outdir :: "string option"
  lik_label :: "string option"
  interferometers :: "string list"
  generate_posterior_sample :: "sample \<Rightarrow> sample"
  calculate_snrs :: "sample \<Rightarrow> sample \<Rightarrow> string \<Rightarrow> complex \<times> complex"
  compute_per_detector_log_likelihood :: "(sample \<Rightarrow> sample) option"

definition dict_update :: "sample \<Rightarrow> sample \<Rightarrow> sample" where
  "dict_update d other = fold (\<lambda>(key, v) d. setitem d key v) other d"

subsection \<open>Reconstruction of marginalized parameters (lines 1583--1738)\<close>

text \<open>
  Lines 1730--1738. The call updates the parameters of the likelihood it runs on, also
  when it then raises, and returns the drawn values of the marginalized parameters.
\<close>

definition fill_sample :: "likelihood \<Rightarrow> nat \<times> sample \<Rightarrow> (error + val list) \<times> likelihood" where
  "fill_sample likelihood args =
     (case args of (ii, sample) \<Rightarrow>
        (let likelihood = likelihood\<lparr>lik_parameters := dict_update (lik_parameters likelihood) sample\<rparr>;
             new_sample = generate_posterior_sample likelihood (lik_parameters likelihood)
         in (getitems new_sample (marginalized_parameters likelihood), likelihood)))"

text \<open>
  The cache dictionary: the table under \<^verbatim>\<open>"_samples"\<close> and the blocks of rows under
  their first row index, in insertion order. The cache file is absent, empty
  (\<^verbatim>\<open>pickle.load\<close> raises \<^verbatim>\<open>EOFError\<close>) or holds a pickled cache dictionary.
\<close>

record cache =
  cache_samples :: dataframe
  cache_blocks :: "(nat \<times> val list list) list"

datatype file_content = Empty_file | Pickled cache

type_synonym files = "string \<Rightarrow> file_content option"

text \<open>Lines 1629--1654.\<close>

definition load_cache :: "files \<Rightarrow> bool \<Rightarrow> bool \<Rightarrow> string \<Rightarrow> dataframe \<Rightarrow> cache" where
  "load_cache fs clean use_cache cache_filename samples =
     (if use_cache \<and> fs cache_filename \<noteq> None \<and> \<not> clean then
        (let cached_samples_dict =
               (case fs cache_filename of
                  Some (Pickled c) \<Rightarrow> Some c
                | _ \<Rightarrow> None)
         in case cached_samples_dict of
              Some c \<Rightarrow>
                if cache_samples c = samples then c
                else \<lparr>cache_samples = samples, cache_blocks = []\<rparr>
            | None \<Rightarrow> \<lparr>cache_samples = samples, cache_blocks = []\<rparr>)
      else \<lparr>cache_samples = samples, cache_blocks = []\<rparr>)"

text \<open>
  One block (lines 1682--1685 and 1540--1545), for the function \<open>row\<close> that is called
  on each row. Sequentially, each call runs on the caller's likelihood and leaves its
  parameters updated; the first call that raises ends the block. In a pool each worker
  has a copy of the likelihood, and the caller's is untouched. All rows of a table have
  the same keys, so the parameters a worker's copy holds when it runs on a row are the
  caller's updated by that row, whichever rows the worker handled before.
\<close>

fun map_rows ::
  "(likelihood \<Rightarrow> nat \<times> sample \<Rightarrow> (error + val list) \<times> likelihood) \<Rightarrow> likelihood
     \<Rightarrow> (nat \<times> sample) list \<Rightarrow> (error + val list list) \<times> likelihood" where
  "map_rows row likelihood [] = (Inr [], likelihood)"
| "map_rows row likelihood (xx # rest) =
     (case row likelihood xx of
        (Inl e, likelihood) \<Rightarrow> (Inl e, likelihood)
      | (Inr values, likelihood) \<Rightarrow>
          (case map_rows row likelihood rest of
             (Inl e, likelihood) \<Rightarrow> (Inl e, likelihood)
           | (Inr subset_samples, likelihood) \<Rightarrow> (Inr (values # subset_samples), likelihood)))"

fun pool_map ::
  "(likelihood \<Rightarrow> nat \<times> sample \<Rightarrow> (error + val list) \<times> likelihood) \<Rightarrow> likelihood
     \<Rightarrow> (nat \<times> sample) list \<Rightarrow> error + val list list" where
  "pool_map row likelihood [] = Inr []"
| "pool_map row likelihood (xx # rest) =
     bindE (fst (row likelihood xx)) (\<lambda>values.
     bindE (pool_map row likelihood rest) (\<lambda>subset_samples.
     Inr (values # subset_samples)))"

definition map_block ::
  "(likelihood \<Rightarrow> nat \<times> sample \<Rightarrow> (error + val list) \<times> likelihood) \<Rightarrow> bool \<Rightarrow> likelihood
     \<Rightarrow> (nat \<times> sample) list \<Rightarrow> (error + val list list) \<times> likelihood" where
  "map_block row pool likelihood args =
     (if pool then (pool_map row likelihood args, likelihood)
      else map_rows row likelihood args)"

text \<open>
  The state of the loop of lines 1676--1693: the row index, the cache dictionary, the
  caller's likelihood, the files, and the row indices of the blocks that have been
  computed. The loop need not end (a block size of 0 never advances), so it returns an
  option. The loop of lines 1534--1550 is the same loop on another function of a row,
  without the dump of the cache dictionary.
\<close>

record loop_state =
  ls_ii :: nat
  ls_cache :: cache
  ls_likelihood :: likelihood
  ls_files :: files
  ls_filled :: "nat list"

partial_function (option) block_loop ::
  "(likelihood \<Rightarrow> nat \<times> sample \<Rightarrow> (error + val list) \<times> likelihood) \<Rightarrow> bool \<Rightarrow> nat \<Rightarrow> bool
     \<Rightarrow> string \<Rightarrow> (nat \<times> sample) list \<Rightarrow> loop_state \<Rightarrow> ((error + unit) \<times> loop_state) option" where
  "block_loop row pool block use_cache cache_filename fill_args st =
     (if ls_ii st < length fill_args then
        (if ls_ii st \<in> set (map fst (cache_blocks (ls_cache st))) then
           block_loop row pool block use_cache cache_filename fill_args (st\<lparr>ls_ii := ls_ii st + block\<rparr>)
         else
           (let args = take block (drop (ls_ii st) fill_args) in
            case map_block row pool (ls_likelihood st) args of
              (Inl e, likelihood) \<Rightarrow> Some (Inl e, st\<lparr>ls_likelihood := likelihood\<rparr>)
            | (Inr subset_samples, likelihood) \<Rightarrow>
                (let cached_samples_dict =
                       (ls_cache st)\<lparr>cache_blocks :=
                          AList.update (ls_ii st) subset_samples (cache_blocks (ls_cache st))\<rparr>;
                     fs = (if use_cache then (ls_files st)(cache_filename \<mapsto> Pickled cached_samples_dict)
                           else ls_files st)
                 in block_loop row pool block use_cache cache_filename fill_args
                      (st\<lparr>ls_ii := ls_ii st + block, ls_cache := cached_samples_dict,
                         ls_likelihood := likelihood, ls_files := fs,
                         ls_filled := ls_filled st @ map fst args\<rparr>))))
      else Some (Inr (), st))"

text \<open>
  Lines 1700--1702 and 1557--1559: the blocks, in the order of the dictionary, as one
  array of rows. \<^verbatim>\<open>np.concatenate\<close> raises on no array.
\<close>

definition concatenate :: "val list list list \<Rightarrow> error + dtype \<times> val list list" where
  "concatenate blocks =
     (if blocks = [] then Inl (ValueError ''need at least one array to concatenate'')
      else (let rows = concat blocks;
                dtype = array_dtype (concat rows)
            in Inr (dtype, map (map (astype dtype)) rows)))"

text \<open>
  Lines 1704--1705 and 1561--1563: \<^verbatim>\<open>new_samples[:, ii]\<close> is the column \<open>ii\<close> of the
  array, and one such column per key is assigned into the table.
\<close>

definition take_column :: "val list list \<Rightarrow> nat \<Rightarrow> error + val list" where
  "take_column new_samples ii =
     (if new_samples = [] \<or> list_ex (\<lambda>row. length row \<le> ii) new_samples then Inl IndexError
      else Inr (map (\<lambda>row. row ! ii) new_samples))"

fun assign_columns ::
  "dtype \<Rightarrow> val list list \<Rightarrow> (nat \<times> string) list \<Rightarrow> dataframe \<Rightarrow> (error + unit) \<times> dataframe" where
  "assign_columns dtype new_samples [] samples = (Inr (), samples)"
| "assign_columns dtype new_samples ((ii, key) # rest) samples =
     (case bindE (take_column new_samples ii) (set_column samples key dtype) of
        Inl e \<Rightarrow> (Inl e, samples)
      | Inr samples \<Rightarrow> assign_columns dtype new_samples rest samples)"

text \<open>The world of a call: the store, the files, and \<^verbatim>\<open>command_line_args.clean\<close>.\<close>

record world =
  w_store :: store
  w_files :: files
  w_clean :: bool

record outcome =
  result :: "error + ref"
  world_after :: world
  likelihood_after :: likelihood
  filled :: "nat list"

definition generate_posterior_samples_from_marginalized_likelihood ::
  "world \<Rightarrow> ref \<Rightarrow> likelihood \<Rightarrow> nat \<Rightarrow> nat \<Rightarrow> bool \<Rightarrow> outcome option" where
  "generate_posterior_samples_from_marginalized_likelihood w samples likelihood npool block use_cache =
     (let unchanged = (\<lambda>r. Some \<lparr>result = r, world_after = w, likelihood_after = likelihood, filled = []\<rparr>)
      in if length (marginalized_parameters likelihood) = 0 then unchanged (Inr samples)
         else case w_store w samples of
           Point _ \<Rightarrow> unchanged (Inr samples)
         | Unsupported \<Rightarrow> unchanged (Inl (ValueError ''Unable to handle input samples of type''))
         | Table df \<Rightarrow>
             (let (cache_filename, use_cache) =
                    (case (lik_outdir likelihood, lik_label likelihood) of
                       (Some outdir, Some label) \<Rightarrow>
                         (outdir @ ''/.'' @ label @ ''_generate_posterior_cache.pickle'', use_cache)
                     | _ \<Rightarrow> ([], False));
                  cached_samples_dict = load_cache (w_files w) (w_clean w) use_cache cache_filename df;
                  pool = (npool > 1);
                  fill_args = iterrows df
              in case block_loop fill_sample pool block use_cache cache_filename fill_args
                        \<lparr>ls_ii = 0, ls_cache = cached_samples_dict, ls_likelihood = likelihood,
                         ls_files = w_files w, ls_filled = []\<rparr> of
                   None \<Rightarrow> None
                 | Some (r, st) \<Rightarrow>
                     (let w = w\<lparr>w_files := ls_files st\<rparr>;
                          finish = (\<lambda>r w. Some \<lparr>result = r, world_after = w,
                                      likelihood_after = ls_likelihood st, filled = ls_filled st\<rparr>)
                      in case r of
                           Inl e \<Rightarrow> finish (Inl e) w
                         | Inr _ \<Rightarrow>
                             (case concatenate (map snd (cache_blocks (ls_cache st))) of
                                Inl e \<Rightarrow> finish (Inl e) w
                              | Inr (dtype, new_samples) \<Rightarrow>
                                  (case assign_columns dtype new_samples
                                          (enumerate 0 (marginalized_parameters likelihood)) df of
                                     (r, df) \<Rightarrow>
                                       (let w = w\<lparr>w_store := (w_store w)(samples := Table df)\<rparr>
                                        in case r of
                                             Inl e \<Rightarrow> finish (Inl e) w
                                           | Inr _ \<Rightarrow> finish (Inr samples) w))))))"

text \<open>
  For stating what the loop leaves in the cache dictionary: a list of rows cut into
  blocks, each under the index of its first row.
\<close>

function chunks :: "nat \<Rightarrow> nat \<Rightarrow> 'a list \<Rightarrow> (nat \<times> 'a list) list" where
  "chunks block ii rows =
     (if block = 0 \<or> rows = [] then []
      else (ii, take block rows) # chunks block (ii + block) (drop block rows))"
  by pat_completeness auto

termination chunks
  by (relation "measure (\<lambda>(block, ii, rows). length rows)") auto

declare chunks.simps [simp del]

subsection \<open>Per-detector log-likelihoods (lines 1472--1580)\<close>

text \<open>
  Lines 1571--1580, \<^verbatim>\<open>_compute_per_detector_log_likelihoods\<close>: one row of a table.
  Calling an attribute that is not callable raises \<^verbatim>\<open>TypeError\<close>.
\<close>

definition compute_per_detector_log_likelihoods_row ::
  "likelihood \<Rightarrow> nat \<times> sample \<Rightarrow> (error + val list) \<times> likelihood" where
  "compute_per_detector_log_likelihoods_row likelihood args =
     (case args of (ii, sample) \<Rightarrow>
        (let likelihood = likelihood\<lparr>lik_parameters := dict_update (lik_parameters likelihood) sample\<rparr>
         in case compute_per_detector_log_likelihood likelihood of
              None \<Rightarrow> (Inl TypeError, likelihood)
            | Some log_likelihoods \<Rightarrow>
                (let new_sample = log_likelihoods (lik_parameters likelihood)
                 in (getitems new_sample
                       (map (\<lambda>ifo. ifo @ ''_log_likelihood'') (interferometers likelihood)),
                     likelihood))))"

text \<open>
  What the function returns: \<^verbatim>\<open>None\<close> without a likelihood, the object it was passed,
  or, for a single point, the \<^verbatim>\<open>dict\<close> that the likelihood built. The likelihood is given
  the keys and values of the point (\<^verbatim>\<open>parameters.update\<close>), never the object.
\<close>

datatype returned = Returned_None | Returned_ref ref | Returned_dict sample

definition compute_per_detector_log_likelihoods ::
  "store \<Rightarrow> ref \<Rightarrow> likelihood option \<Rightarrow> nat \<Rightarrow> nat
     \<Rightarrow> ((error + returned) \<times> store \<times> likelihood option) option" where
  "compute_per_detector_log_likelihoods st samples likelihood npool block =
     (case likelihood of
        None \<Rightarrow> Some (Inr Returned_None, st, None)
      | Some likelihood \<Rightarrow>
          (case compute_per_detector_log_likelihood likelihood of
             None \<Rightarrow> Some (Inr (Returned_ref samples), st, Some likelihood)
           | Some log_likelihoods \<Rightarrow>
               (case st samples of
                  Point d \<Rightarrow>
                    (let likelihood =
                           likelihood\<lparr>lik_parameters := dict_update (lik_parameters likelihood) d\<rparr>
                     in Some (Inr (Returned_dict (log_likelihoods (lik_parameters likelihood))), st,
                              Some likelihood))
                | Unsupported \<Rightarrow>
                    Some (Inl (ValueError ''Unable to handle input samples of type''), st, Some likelihood)
                | Table df \<Rightarrow>
                    (let cached_samples_dict = \<lparr>cache_samples = df, cache_blocks = []\<rparr>;
                         pool = (npool > 1);
                         fill_args = iterrows df
                     in case block_loop compute_per_detector_log_likelihoods_row pool block False []
                               fill_args
                               \<lparr>ls_ii = 0, ls_cache = cached_samples_dict, ls_likelihood = likelihood,
                                ls_files = (\<lambda>name. None), ls_filled = []\<rparr> of
                          None \<Rightarrow> None
                        | Some (r, loop) \<Rightarrow>
                            (case r of
                               Inl e \<Rightarrow> Some (Inl e, st, Some (ls_likelihood loop))
                             | Inr _ \<Rightarrow>
                                 (case concatenate (map snd (cache_blocks (ls_cache loop))) of
                                    Inl e \<Rightarrow> Some (Inl e, st, Some (ls_likelihood loop))
                                  | Inr (dtype, new_samples) \<Rightarrow>
                                      (case assign_columns dtype new_samples
                                              (enumerate 0
                                                 (map (\<lambda>ifo. ifo @ ''_log_likelihood'')
                                                    (interferometers likelihood))) df of
                                         (r, df) \<Rightarrow>
                                           (let st = st(samples := Table df)
                                            in case r of
                                                 Inl e \<Rightarrow> Some (Inl e, st, Some (ls_likelihood loop))
                                               | Inr _ \<Rightarrow>
                                                   Some (Inr (Returned_ref samples), st,
                                                         Some (ls_likelihood loop))))))))))"

subsection \<open>Signal-to-noise ratios (lines 1394--1469)\<close>

text \<open>
  Lines 1411--1416, for a single point: the strain is computed once from the sample as
  it is before the loop, and the loop assigns two keys per interferometer into the
  sample.
\<close>

fun snr_point_loop :: "likelihood \<Rightarrow> sample \<Rightarrow> string list \<Rightarrow> sample \<Rightarrow> sample" where
  "snr_point_loop likelihood strain_of [] sample = sample"
| "snr_point_loop likelihood strain_of (ifo # ifos) sample =
     (let per_detector_snr = calculate_snrs likelihood (lik_parameters likelihood) strain_of ifo;
          sample = setitem sample (ifo @ ''_matched_filter_snr'') (Cplx (fst per_detector_snr));
          sample = setitem sample (ifo @ ''_optimal_snr'') (Num (Re (snd per_detector_snr) powr 0.5))
      in snr_point_loop likelihood strain_of ifos sample)"

text \<open>Lines 1456--1469, \<^verbatim>\<open>_compute_snrs\<close>: one row of a table.\<close>

definition compute_snrs_row ::
  "likelihood \<Rightarrow> nat \<times> sample \<Rightarrow> (complex \<times> complex) list \<times> likelihood" where
  "compute_snrs_row likelihood args =
     (case args of (ii, sample) \<Rightarrow>
        (let likelihood = likelihood\<lparr>lik_parameters := dict_update (lik_parameters likelihood) sample\<rparr>;
             snrs = map (calculate_snrs likelihood (lik_parameters likelihood) sample)
                      (interferometers likelihood)
         in (snrs, likelihood)))"

fun compute_snrs_rows ::
  "likelihood \<Rightarrow> (nat \<times> sample) list \<Rightarrow> (complex \<times> complex) list list \<times> likelihood" where
  "compute_snrs_rows likelihood [] = ([], likelihood)"
| "compute_snrs_rows likelihood (xx # rest) =
     (case compute_snrs_row likelihood xx of (snrs, likelihood) \<Rightarrow>
        (case compute_snrs_rows likelihood rest of (new_samples, likelihood) \<Rightarrow>
           (snrs # new_samples, likelihood)))"

text \<open>
  Lines 1440--1450: two columns per interferometer assigned into the table, each a list
  of values of one kind, whose dtype is that of the values.
\<close>

fun snr_table_loop ::
  "(complex \<times> complex) list list \<Rightarrow> (nat \<times> string) list \<Rightarrow> dataframe \<Rightarrow> (error + unit) \<times> dataframe" where
  "snr_table_loop new_samples [] sample = (Inr (), sample)"
| "snr_table_loop new_samples ((ii, ifo) # rest) sample =
     (let matched_filter_snrs = map (\<lambda>new_sample. Cplx (fst (new_sample ! ii))) new_samples;
          optimal_snrs = map (\<lambda>new_sample. Num (Re (snd (new_sample ! ii)) powr 0.5)) new_samples
      in case set_column sample (ifo @ ''_matched_filter_snr'')
                (array_dtype matched_filter_snrs) matched_filter_snrs of
           Inl e \<Rightarrow> (Inl e, sample)
         | Inr sample \<Rightarrow>
             (case set_column sample (ifo @ ''_optimal_snr'') (array_dtype optimal_snrs) optimal_snrs of
                Inl e \<Rightarrow> (Inl e, sample)
              | Inr sample \<Rightarrow> snr_table_loop new_samples rest sample))"

text \<open>
  \<^verbatim>\<open>compute_snrs\<close> has no \<^verbatim>\<open>return\<close>: what it computes is in the object it was passed.
  An object that is neither a \<^verbatim>\<open>dict\<close> nor a table has no \<^verbatim>\<open>iterrows\<close>.
\<close>

definition compute_snrs ::
  "store \<Rightarrow> ref \<Rightarrow> likelihood option \<Rightarrow> nat \<Rightarrow> (error + unit) \<times> store \<times> likelihood option" where
  "compute_snrs st sample likelihood npool =
     (case likelihood of
        None \<Rightarrow> (Inr (), st, None)
      | Some likelihood \<Rightarrow>
          (case st sample of
             Point d \<Rightarrow>
               (let likelihood = likelihood\<lparr>lik_parameters := dict_update (lik_parameters likelihood) d\<rparr>;
                    d' = snr_point_loop likelihood d (interferometers likelihood) d
                in (Inr (), st(sample := Point d'), Some likelihood))
           | Table df \<Rightarrow>
               (let fill_args = iterrows df;
                    (new_samples, likelihood') =
                       (if npool > 1
                        then (map (\<lambda>xx. fst (compute_snrs_row likelihood xx)) fill_args, likelihood)
                        else compute_snrs_rows likelihood fill_args)
                in case snr_table_loop new_samples (enumerate 0 (interferometers likelihood)) df of
                     (r, df') \<Rightarrow> (r, st(sample := Table df'), Some likelihood'))
           | Unsupported \<Rightarrow> (Inl AttributeError, st, Some likelihood)))"

subsection \<open>Collaborators for concrete evaluations\<close>

text \<open>
  A cosmology in which distance and redshift coincide, and an equation of state that
  never warns: stand-ins for the external collaborators where a function is evaluated
  on a concrete sample.
\<close>

definition example_cosmology :: cosmology where
  "example_cosmology =
     \<lparr>luminosity_distance = (\<lambda>z. z), comoving_distance = (\<lambda>z. z),
      z_at_luminosity_distance = (\<lambda>d. d), z_at_comoving_distance = (\<lambda>d. d)\<rparr>"

definition example_eos :: eos_collaborator where
  "example_eos =
     \<lparr>warning_flag = (\<lambda>gammas. False), tov_mass = (\<lambda>gammas i. real i),
      maximum_mass = (\<lambda>gammas. 2), lambda_from_mass = (\<lambda>gammas m. 0)\<rparr>"

text \<open>
  A likelihood that marginalizes over the distance, draws the distance 100 whatever its
  parameters are, has one interferometer, and gives its parameters with the
  log-likelihood \<open>-1\<close> of that interferometer.
\<close>

definition example_likelihood :: likelihood where
  "example_likelihood =
     \<lparr>lik_parameters = [], marginalized_parameters = [''luminosity_distance''],
      lik_outdir = Some ''outdir'', lik_label = Some ''label'', interferometers = [''H1''],
      generate_posterior_sample = (\<lambda>parameters. [(''luminosity_distance'', Num 100)]),
      calculate_snrs = (\<lambda>parameters sample ifo. (Complex 3 4, 25)),
      compute_per_detector_log_likelihood =
        Some (\<lambda>parameters. setitem parameters ''H1_log_likelihood'' (Num (- 1)))\<rparr>"

text \<open>
  A table of three rows, a cache file written for a table that differs from it in one
  cell, and a world that holds the table at every address and the file under the name
  the example likelihood gives.
\<close>

definition example_table :: dataframe where
  "example_table = \<lparr>df_nrows = 3, df_columns = [(''mass_1'', Float64, [Num 1, Num 2, Num 3])]\<rparr>"

definition stale_cache :: cache where
  "stale_cache =
     \<lparr>cache_samples = \<lparr>df_nrows = 3, df_columns = [(''mass_1'', Float64, [Num 1, Num 2, Num 4])]\<rparr>,
      cache_blocks = [(0, [[Num 7], [Num 7]])]\<rparr>"

definition example_world :: world where
  "example_world =
     \<lparr>w_store = (\<lambda>r. Table example_table),
      w_files = [''outdir/.label_generate_posterior_cache.pickle'' \<mapsto> Pickled stale_cache],
      w_clean = False\<rparr>"

section \<open>Properties\<close>

subsection \<open>Mass algebra\<close>

text \<open>
  C3. \<^verbatim>\<open>mass_2_and_chirp_mass_to_mass_ratio(m2, mc)\<close> is exactly the reciprocal of
  \<^verbatim>\<open>mass_1_and_chirp_mass_to_mass_ratio(m2, mc)\<close>, for all arguments and so for all
  positive ones.
\<close>

theorem mass_2_and_chirp_mass_to_mass_ratio_reciprocal:
  "mass_2_and_chirp_mass_to_mass_ratio mass_2 chirp_mass =
     1 / mass_1_and_chirp_mass_to_mass_ratio mass_2 chirp_mass"
  by (simp add: mass_2_and_chirp_mass_to_mass_ratio_def)

lemma total_mass_roundtrip:
  assumes "0 < m2" "0 < m1"
  shows "chirp_mass_and_mass_ratio_to_total_mass (component_masses_to_chirp_mass m1 m2) (component_masses_to_mass_ratio m1 m2) = m1 + m2"
proof -
  let ?M = "m1 + m2"
  have pos: "0 < ?M" "0 < m1 * m2" "0 < m2 / m1" "0 < ?M / m1" using assms by auto
  have q1: "1 + m2 / m1 = ?M / m1" using assms by (simp add: field_simps)
  have "(m1 * m2) powr 0.6 / ?M powr 0.2 * (?M / m1) powr 1.2 / (m2 / m1) powr 0.6
      = (m1 powr 0.6 * m2 powr 0.6) / ?M powr 0.2 * (?M powr 1.2 / m1 powr 1.2) / (m2 powr 0.6 / m1 powr 0.6)"
    using assms by (simp add: powr_mult powr_divide)
  also have "\<dots> = ?M powr 1.2 / ?M powr 0.2 * (m1 powr 0.6 * m1 powr 0.6 / m1 powr 1.2)"
    using assms by (simp add: field_simps)
  also have "?M powr 1.2 / ?M powr 0.2 = ?M powr 1" 
    by (simp add: powr_diff [symmetric])
  also have "m1 powr 0.6 * m1 powr 0.6 = m1 powr 1.2" by (simp add: powr_add [symmetric])
  finally show ?thesis using pos assms
    by (simp add: chirp_mass_and_mass_ratio_to_total_mass_def component_masses_to_chirp_mass_def component_masses_to_mass_ratio_def q1)
qed

text \<open>
  C4. For real masses \<open>m1 > m2 > 0\<close>, the component masses are recovered from
  (mass ratio, total mass) and from (chirp mass, mass ratio).
\<close>

theorem component_masses_roundtrip:
  assumes "0 < m2" "m2 < m1"
  shows "total_mass_and_mass_ratio_to_component_masses
           (component_masses_to_mass_ratio m1 m2) (component_masses_to_total_mass m1 m2) = (m1, m2)
       \<and> chirp_mass_and_mass_ratio_to_component_masses
           (component_masses_to_chirp_mass m1 m2) (component_masses_to_mass_ratio m1 m2) = (m1, m2)"
proof -
  have nz: "m1 \<noteq> 0" "m1 + m2 \<noteq> 0" and pos: "0 < m1" using assms by auto
  have split: "(m1 + m2) / (1 + m2 / m1) = m1" using nz by (simp add: field_simps)
  have fromtotal: "total_mass_and_mass_ratio_to_component_masses (m2 / m1) (m1 + m2) = (m1, m2)"
    using nz split by (simp add: total_mass_and_mass_ratio_to_component_masses_def)
  have "chirp_mass_and_mass_ratio_to_total_mass
          (component_masses_to_chirp_mass m1 m2) (component_masses_to_mass_ratio m1 m2) = m1 + m2"
    using assms(1) pos by (rule total_mass_roundtrip)
  then have "chirp_mass_and_mass_ratio_to_component_masses
          (component_masses_to_chirp_mass m1 m2) (component_masses_to_mass_ratio m1 m2) =
        total_mass_and_mass_ratio_to_component_masses (m2 / m1) (m1 + m2)"
    by (simp add: chirp_mass_and_mass_ratio_to_component_masses_def component_masses_to_mass_ratio_def)
  with fromtotal show ?thesis
    by (simp add: component_masses_to_mass_ratio_def component_masses_to_total_mass_def)
qed

theorem component_masses_roundtrip_witness:
  "(0::real) < 1 \<and> (1::real) < 2
   \<and> total_mass_and_mass_ratio_to_component_masses
        (component_masses_to_mass_ratio 2 1) (component_masses_to_total_mass 2 1) = (2, 1)
   \<and> chirp_mass_and_mass_ratio_to_component_masses
        (component_masses_to_chirp_mass 2 1) (component_masses_to_mass_ratio 2 1) = (2, 1)"
  using component_masses_roundtrip [of 1 2] by simp

text \<open>
  The rounding of some powers of two: a power of two is a double, and \<open>2\<^sup>n - 1\<close> lies
  within a quarter of a unit in the last place of \<open>2\<^sup>n\<close> once \<open>n \<ge> 55\<close>.
\<close>

lemma round_half_even_of_int: "round_half_even (of_int k) = k"
  by (simp add: round_half_even_def)

lemma round_double_exponent:
  assumes "2 ^ n \<le> \<bar>x\<bar>" and "\<bar>x\<bar> < 2 ^ Suc n"
  shows "round_double x = 2 powr (real n - 52) * of_int (round_half_even (x / 2 powr (real n - 52)))"
proof -
  have pos: "0 < \<bar>x\<bar>" using assms(1) zero_less_power [of "2::real" n] by linarith
  have "(2::real) powr (of_int (int n)) \<le> \<bar>x\<bar>" "\<bar>x\<bar> < (2::real) powr (of_int (int n) + 1)"
    using assms by (simp_all add: powr_realpow powr_add)
  then have "\<lfloor>log 2 \<bar>x\<bar>\<rfloor> = int n"
    using floor_log_eq_powr_iff [of "\<bar>x\<bar>" 2 "int n"] pos by simp
  moreover have "x \<noteq> 0" using pos by auto
  ultimately show ?thesis by (simp add: round_double_def Let_def)
qed

lemma round_double_power_of_two: "round_double (2 ^ n) = 2 ^ n"
proof -
  have "round_double (2 ^ n) =
      2 powr (real n - 52) * of_int (round_half_even (2 ^ n / 2 powr (real n - 52)))"
    by (rule round_double_exponent) simp_all
  moreover have "(2::real) ^ n / 2 powr (real n - 52) = 2 powr 52"
    by (simp add: powr_realpow [symmetric] powr_diff [symmetric])
  moreover have "(2::real) powr 52 = of_int (2 ^ 52)"
    using powr_realpow [of "2::real" 52] by simp
  moreover have "(2::real) powr (real n - 52) * of_int (2 ^ 52) = 2 ^ n"
    by (simp add: powr_diff powr_realpow)
  ultimately show ?thesis
    by (simp only: round_half_even_of_int)
qed

lemma round_double_power_of_two_minus_one:
  assumes "55 \<le> n"
  shows "round_double (2 ^ n - 1) = 2 ^ n"
proof -
  obtain k where n: "n = k + 55" using assms by (metis add.commute le_Suc_ex)
  let ?x = "(2::real) ^ n - 1"
  have "n = Suc (k + 54)" by (simp add: n)
  then have big: "(2::real) ^ n = 2 * 2 ^ (k + 54)" by (simp only: power_Suc)
  have one: "(1::real) \<le> 2 ^ (k + 54)" by simp
  define y :: real where "y = 2 ^ (k + 54)"
  have x: "?x = 2 * y - 1" and y1: "1 \<le> y" using big one by (simp_all add: y_def)
  have lo: "2 ^ (k + 54) \<le> \<bar>?x\<bar>" unfolding x y_def [symmetric] using y1 by linarith
  have hi: "\<bar>?x\<bar> < 2 ^ Suc (k + 54)" unfolding x power_Suc y_def [symmetric] using y1 by linarith
  have ulp: "(2::real) powr (real (k + 54) - 52) = 2 ^ (k + 2)"
    using powr_realpow [of "2::real" "k + 2"] by (simp add: algebra_simps)
  have quot: "?x / 2 ^ (k + 2) = 2 ^ 53 - 1 / 2 ^ (k + 2)"
    by (simp add: n power_add field_simps)
  define z :: real where "z = 1 / 2 ^ (k + 2)"
  have "(1::real) \<le> 2 ^ k" by simp
  then have "(4::real) \<le> 2 ^ (k + 2)" by (simp add: power_add)
  then have small: "0 < z" "z \<le> 1 / 4"
    unfolding z_def by (simp_all add: field_simps)
  have fl: "\<lfloor>(2::real) ^ 53 - z\<rfloor> = 2 ^ 53 - 1"
    using small by (intro floor_unique) simp_all
  have "round_half_even ((2::real) ^ 53 - z) = 2 ^ 53"
    unfolding round_half_even_def Let_def fl using small by simp
  then have "round_half_even (?x / 2 ^ (k + 2)) = 2 ^ 53"
    unfolding quot z_def by simp
  moreover have "round_double ?x =
      2 powr (real (k + 54) - 52) * of_int (round_half_even (?x / 2 powr (real (k + 54) - 52)))"
    using lo hi by (rule round_double_exponent)
  ultimately have "round_double ?x = 2 ^ (k + 2) * 2 ^ 53" unfolding ulp by simp
  then show ?thesis by (simp add: n power_add)
qed


lemma round_double_zero: "round_double 0 = 0"
  by (simp add: round_double_def)

lemma sqrt_power_of_two_138: "((2::real) ^ 138) powr 0.5 = 2 ^ 69"
proof -
  have "(2::real) ^ 138 = (2 ^ 69) ^ 2" by (simp only: power_mult [symmetric]) simp
  then have "((2::real) ^ 138) powr 0.5 = sqrt ((2 ^ 69) ^ 2)"
    using powr_half_sqrt [of "(2::real) ^ 138"] by simp
  also have "\<dots> = \<bar>2 ^ 69\<bar>" by (rule real_sqrt_abs)
  finally show ?thesis by simp
qed

lemma round_double_input: "round_double (1 / 2 ^ 70) = 1 / 2 ^ 70"
proof -
  define x :: real where "x = 2 powr (- 70)"
  define u :: real where "u = 2 powr (- 70 - 52)"
  have x: "(1::real) / 2 ^ 70 = x"
    using powr_realpow [of "2::real" 70] by (simp add: x_def powr_minus field_simps)
  have nz: "x \<noteq> 0" by (simp add: x_def)
  have e: "\<lfloor>log 2 \<bar>x\<bar>\<rfloor> = - 70" by (simp add: x_def)
  have p52: "(2::real) powr 52 = of_int (2 ^ 52)"
    using powr_realpow [of "2::real" 52] by simp
  have "x / u = 2 powr 52" by (simp add: x_def u_def powr_diff [symmetric])
  then have q: "x / u = of_int (2 ^ 52)" by (simp only: p52)
  have "u * 2 powr 52 = x" unfolding x_def u_def by (simp only: powr_add [symmetric]) simp
  then have scaled: "u * of_int (2 ^ 52) = x" by (simp only: p52)
  have "round_double x = u * of_int (round_half_even (x / u))"
    using nz e by (simp add: round_double_def Let_def u_def)
  also have "\<dots> = x" by (simp only: q round_half_even_of_int scaled)
  finally show ?thesis by (simp only: x)
qed

text \<open>
  C5, as stated, fails in double precision. \<open>\<eta> = 2\<^sup>-\<^sup>7\<^sup>0\<close> is a double in \<open>(0, 0.25]\<close>.
  \<^verbatim>\<open>1 / eta / 2\<close> is \<open>2\<^sup>6\<^sup>9\<close> and subtracting 1 rounds back to \<open>2\<^sup>6\<^sup>9\<close>, so \<^verbatim>\<open>temp\<close> is
  \<open>2\<^sup>6\<^sup>9\<close>; \<^verbatim>\<open>temp ** 2 - 1\<close> rounds to \<open>2\<^sup>1\<^sup>3\<^sup>8\<close>, whose square root is \<open>2\<^sup>6\<^sup>9\<close> again, and
  the function returns \<open>0\<close>, which is not a positive mass ratio.
\<close>

theorem symmetric_mass_ratio_to_mass_ratio_double_cancellation:
  "0 < (1::real) / 2 ^ 70 \<and> (1::real) / 2 ^ 70 \<le> 0.25
   \<and> round_double (1 / 2 ^ 70) = 1 / 2 ^ 70
   \<and> symmetric_mass_ratio_to_mass_ratio_double (1 / 2 ^ 70) = 0
   \<and> \<not> 0 < symmetric_mass_ratio_to_mass_ratio_double (1 / 2 ^ 70)"
proof -
  have a: "(1::real) / (1 / 2 ^ 70) = 2 ^ 70" by simp
  have b: "(2::real) ^ 70 / 2 = 2 ^ 69" by simp
  have c: "((2::real) ^ 69) ^ 2 = 2 ^ 138" by (simp only: power_mult [symmetric]) simp
  have r70: "round_double (2 ^ 70) = 2 ^ 70" by (rule round_double_power_of_two)
  have r69: "round_double (2 ^ 69) = 2 ^ 69" by (rule round_double_power_of_two)
  have r138: "round_double (2 ^ 138) = 2 ^ 138" by (rule round_double_power_of_two)
  have m69: "round_double (2 ^ 69 - 1) = 2 ^ 69"
    by (rule round_double_power_of_two_minus_one) simp
  have m138: "round_double (2 ^ 138 - 1) = 2 ^ 138"
    by (rule round_double_power_of_two_minus_one) simp
  have zero: "symmetric_mass_ratio_to_mass_ratio_double (1 / 2 ^ 70) = 0"
    unfolding symmetric_mass_ratio_to_mass_ratio_double_def Let_def
    by (simp only: a r70 b r69 m69 c r138 m138 sqrt_power_of_two_138 diff_self round_double_zero)
  have pos: "0 < (1::real) / 2 ^ 70" by simp
  have le: "(1::real) / 2 ^ 70 \<le> 0.25" by simp
  have neg: "\<not> 0 < symmetric_mass_ratio_to_mass_ratio_double (1 / 2 ^ 70)"
    unfolding zero by (rule less_irrefl)
  from pos le round_double_input zero neg show ?thesis by (intro conjI)
qed

text \<open>
  C5, amended. In exact real arithmetic, for a symmetric mass ratio \<open>0 < \<eta> \<le> 1/4\<close>
  the formula of lines 466--467 gives \<open>q = t - sqrt (t\<^sup>2 - 1)\<close> with
  \<open>t = 1 / (2 \<eta>) - 1\<close>, and \<open>0 < q \<le> 1\<close>: it is the root in \<open>(0, 1]\<close> of
  \<open>q / (1 + q)\<^sup>2 = \<eta>\<close>.
\<close>

theorem symmetric_mass_ratio_to_mass_ratio_physical_root:
  assumes "0 < eta" "eta \<le> 0.25"
  shows "symmetric_mass_ratio_to_mass_ratio eta = (1 / (2 * eta) - 1) - sqrt ((1 / (2 * eta) - 1)^2 - 1)
     \<and> 0 < symmetric_mass_ratio_to_mass_ratio eta \<and> symmetric_mass_ratio_to_mass_ratio eta \<le> 1
     \<and> symmetric_mass_ratio_to_mass_ratio eta / (1 + symmetric_mass_ratio_to_mass_ratio eta)^2 = eta"
proof -
  define t where "t = 1 / (2 * eta) - 1"
  define s where "s = sqrt (t^2 - 1)"
  define q where "q = symmetric_mass_ratio_to_mass_ratio eta"
  have t1: "1 \<le> t" using assms unfolding t_def by (simp add: field_simps)
  have "1 * 1 \<le> t * t" using t1 by (intro mult_mono) simp_all
  then have nn: "0 \<le> t^2 - 1" by (simp add: power2_eq_square)
  have half: "(t^2 - 1) powr 0.5 = s"
    using nn powr_half_sqrt [of "t^2 - 1"] by (simp add: s_def)
  have "q = t - (t^2 - 1) powr 0.5"
    unfolding q_def symmetric_mass_ratio_to_mass_ratio_def t_def Let_def by (simp add: field_simps)
  then have eq: "q = t - s" using half by simp
  have "sqrt (t^2 - 1) < sqrt (t^2)" by (rule real_sqrt_less_mono) simp
  then have lt: "s < t" using t1 by (simp add: s_def)
  have "(t - 1)^2 \<le> t^2 - 1" using t1 by (simp add: power2_eq_square algebra_simps)
  then have "sqrt ((t - 1)^2) \<le> sqrt (t^2 - 1)" by (rule real_sqrt_le_mono)
  then have ge: "t - 1 \<le> s" using t1 by (simp add: s_def)
  have s2: "s^2 = t^2 - 1" using nn by (simp add: s_def)
  have pos: "0 < q" and le: "q \<le> 1" using eq lt ge by simp_all
  have "(1 + q)^2 = q * (2 * t + 2)"
    using s2 by (simp add: eq power2_eq_square algebra_simps)
  moreover have "2 * t + 2 = 1 / eta" using assms(1) by (simp add: t_def field_simps)
  ultimately have sq: "(1 + q)^2 = q / eta" by simp
  have "q / (1 + q)^2 = eta" using pos assms(1) by (simp add: sq)
  with eq pos le show ?thesis unfolding q_def s_def t_def by simp
qed

theorem symmetric_mass_ratio_to_mass_ratio_physical_root_witness:
  "0 < (2::real) / 9 \<and> (2::real) / 9 \<le> 0.25
   \<and> symmetric_mass_ratio_to_mass_ratio (2 / 9) = 1 / 2
   \<and> 0 < symmetric_mass_ratio_to_mass_ratio (2 / 9) \<and> symmetric_mass_ratio_to_mass_ratio (2 / 9) \<le> 1
   \<and> symmetric_mass_ratio_to_mass_ratio (2 / 9) / (1 + symmetric_mass_ratio_to_mass_ratio (2 / 9))^2 = 2 / 9"
proof -
  have t: "(1::real) / (2 * (2 / 9)) - 1 = 5 / 4" by simp
  have "sqrt ((5 / 4)\<^sup>2 - 1) = sqrt ((3 / 4)\<^sup>2)"
    by (simp add: power2_eq_square)
  also have "\<dots> = \<bar>3 / 4\<bar>" by (rule real_sqrt_abs)
  finally have s: "sqrt ((5 / 4)\<^sup>2 - 1) = 3 / 4" by simp
  have "symmetric_mass_ratio_to_mass_ratio (2 / 9) = 5 / 4 - 3 / 4"
    using symmetric_mass_ratio_to_mass_ratio_physical_root [of "2 / 9"]
    by (simp only: t s) simp
  then have q: "symmetric_mass_ratio_to_mass_ratio (2 / 9) = 1 / 2" by simp
  show ?thesis by (simp add: q power2_eq_square)
qed

text \<open>
  C10. \<^verbatim>\<open>chirp_mass_and_primary_mass_to_mass_ratio\<close> and
  \<^verbatim>\<open>mass_1_and_chirp_mass_to_mass_ratio\<close> agree for positive chirp mass and primary mass
  with \<open>(chirp_mass / mass_1)\<^sup>5 \<le> 27/4\<close>.
\<close>

theorem chirp_mass_primary_mass_solvers_agree:
  assumes "0 < mc" "0 < m1" "(mc / m1) ^ 5 \<le> 27 / 4"
  shows "chirp_mass_and_primary_mass_to_mass_ratio mc m1 = mass_1_and_chirp_mass_to_mass_ratio m1 mc"
proof -
  define a where "a = (mc / m1) ^ 5"
  have a0: "0 < a" using assms unfolding a_def by simp
  have a1: "a \<le> 27 / 4" using assms unfolding a_def by simp
  define D where "D = 27 * a ^ 2 - 4 * a ^ 3"
  have "D = a ^ 2 * (27 - 4 * a)" unfolding D_def by (simp add: power2_eq_square power3_eq_cube algebra_simps)
  then have D0: "0 \<le> D" using a0 a1 by simp
  define X where "X = 9 * a + sqrt 3 * sqrt D"
  have X0: "0 < X" using a0 D0 unfolding X_def by (simp add: add_pos_nonneg)
  have h3: "(3::real) powr 0.5 = sqrt 3" using powr_half_sqrt [of "3::real"] by simp
  have hD: "D powr 0.5 = sqrt D" using D0 powr_half_sqrt [of D] by simp
  have X': "3 powr 0.5 * D powr 0.5 + 9 * a = X" unfolding X_def h3 hD by simp
  have "0 < 2 / 3 / X" using X0 by simp
  then have "root 3 (2 / 3 / X) = (2 / 3 / X) powr (1 / 3)"
    using root_powr_inverse [of 3 "2 / 3 / X"] by simp
  then have r1: "(2 / 3 / X) powr (1 / 3) = root 3 (2 / 3) / root 3 X"
    using real_root_divide [of 3 "2 / 3" X] by simp
  have "((3::real) powr 2) powr (1 / 3) = 3 powr (2 * (1 / 3))" by (rule powr_powr)
  moreover have "(3::real) powr 2 = 9" using powr_numeral [of "3::real" "num.Bit0 num.One"] by simp
  ultimately have "(3::real) powr (2 / 3) = 9 powr (1 / 3)" by simp
  also have "\<dots> = root 3 9" using root_powr_inverse [of 3 "9::real"] by simp
  finally have t1: "root 3 2 * 3 powr (2 / 3) = root 3 18"
    by (simp add: real_root_mult [symmetric])
  have "0 < X / (2 * 3 ^ 2)" using X0 by simp
  then have "root 3 (X / (2 * 3 ^ 2)) = (X / (2 * 3 ^ 2)) powr (1 / 3)"
    using root_powr_inverse [of 3 "X / (2 * 3 ^ 2)"] by simp
  then have r2: "(X / (2 * 3 ^ 2)) powr (1 / 3) = root 3 X / root 3 18"
    using real_root_divide [of 3 X 18] by simp
  have lhs: "chirp_mass_and_primary_mass_to_mass_ratio mc m1 = root 3 (2 / 3) * a / root 3 X + root 3 X / root 3 18"
    unfolding chirp_mass_and_primary_mass_to_mass_ratio_def Let_def a_def [symmetric] D_def [symmetric] X_def [symmetric] t1 ..
  have rhs: "mass_1_and_chirp_mass_to_mass_ratio m1 mc = (2 / 3 / X) powr (1 / 3) * a + (X / (2 * 3 ^ 2)) powr (1 / 3)"
    unfolding mass_1_and_chirp_mass_to_mass_ratio_def Let_def a_def [symmetric] D_def [symmetric] X' ..
  show ?thesis unfolding lhs rhs r1 r2 by simp
qed

theorem chirp_mass_primary_mass_solvers_agree_witness:
  "(0::real) < 1 \<and> (0::real) < 1 \<and> ((1::real) / 1) ^ 5 \<le> 27 / 4
   \<and> chirp_mass_and_primary_mass_to_mass_ratio 1 1 = mass_1_and_chirp_mass_to_mass_ratio 1 1"
  using chirp_mass_primary_mass_solvers_agree [of 1 1] by simp

subsection \<open>Spin conversion\<close>

text \<open>
  C6. When each body has zero spin magnitude or a tilt of exactly 0 or \<open>\<pi>\<close> (so in
  particular when \<open>a_1 = a_2 = 0\<close>), the x and y components are 0, the z components
  are \<open>a_i * cos tilt_i\<close> and the inclination is \<open>theta_jn\<close>. This holds whatever the
  frame transform \<open>lalsim\<close> is, also one that raises on every call: it is not called.
\<close>

theorem bilby_to_lalsimulation_spins_aligned:
  assumes "a_1 = 0 \<or> tilt_1 = 0 \<or> tilt_1 = pi" and "a_2 = 0 \<or> tilt_2 = 0 \<or> tilt_2 = pi"
  shows "bilby_to_lalsimulation_spins lalsim theta_jn phi_jl tilt_1 tilt_2 phi_12 a_1 a_2
           mass_1 mass_2 reference_frequency phase =
         Inr (theta_jn, 0, 0, a_1 * cos tilt_1, 0, 0, a_2 * cos tilt_2)"
  using assms by (auto simp add: bilby_to_lalsimulation_spins_def)

theorem bilby_to_lalsimulation_spins_aligned_witness:
  "((0::real) = 0 \<or> (1::real) = 0 \<or> (1::real) = pi) \<and> ((0::real) = 0 \<or> (2::real) = 0 \<or> (2::real) = pi)
   \<and> bilby_to_lalsimulation_spins (\<lambda>_. Inl ExternalError) 3 4 1 2 5 0 0 30 20 50 6 =
       Inr (3, 0, 0, 0 * cos 1, 0, 0, 0 * cos 2)"
  using bilby_to_lalsimulation_spins_aligned [of 0 1 0 2 "\<lambda>_. Inl ExternalError" 3 4 5 30 20 50 6]
  by simp

subsection \<open>Component masses\<close>

lemma getitem_absent: "\<not> contains d k \<Longrightarrow> getitem d k = Inl (KeyError k)"
  by (simp add: contains_def keys_of_def getitem_def map_of_eq_None_iff [THEN iffD2])

text \<open>
  With \<^verbatim>\<open>mass_1\<close> and nothing to pair it with, the strict mode raises and the lenient
  mode returns the input.
\<close>

lemma generate_component_masses_insufficient_mass_1:
  assumes "contains s (if source then ''mass_1_source'' else ''mass_1'')"
    and "\<not> contains s (if source then ''mass_2_source'' else ''mass_2'')"
    and "\<not> contains s (if source then ''total_mass_source'' else ''total_mass'')"
    and "\<not> contains s ''mass_ratio''" and "\<not> contains s ''symmetric_mass_ratio''"
    and "\<not> contains s (if source then ''chirp_mass_source'' else ''chirp_mass'')"
  shows "generate_component_masses s True source =
           Inl (KeyError ''Insufficient mass parameters in input dictionary'')"
    and "generate_component_masses s False source = Inr s"
  using assms
  by (simp_all add: generate_component_masses_def gcm_mass_1_present_def
      check_and_return_quietly_def)

text \<open>The same with neither component mass and no pair of total or chirp mass with a ratio.\<close>

lemma generate_component_masses_insufficient_no_component:
  assumes "\<not> contains s (if source then ''mass_1_source'' else ''mass_1'')"
    and "\<not> contains s (if source then ''mass_2_source'' else ''mass_2'')"
    and "\<not> contains s ''mass_ratio''" and "\<not> contains s ''symmetric_mass_ratio''"
    and "\<not> (contains s (if source then ''total_mass_source'' else ''total_mass'')
           \<and> contains s (if source then ''chirp_mass_source'' else ''chirp_mass''))"
  shows "generate_component_masses s True source =
           Inl (KeyError ''Insufficient mass parameters in input dictionary'')"
    and "generate_component_masses s False source = Inr s"
  using assms
  by (auto simp add: generate_component_masses_def gcm_no_component_def
      check_and_return_quietly_def Let_def)

text \<open>
  With \<^verbatim>\<open>mass_2\<close> and nothing to pair it with, the strict mode raises as above, but the
  lenient mode raises too: the sample that \<^verbatim>\<open>check_and_return_quietly\<close> returns is
  dropped at line 1107, and line 1109 reads the absent key \<^verbatim>\<open>mass_ratio\<close>.
\<close>

lemma generate_component_masses_insufficient_mass_2:
  assumes "\<not> contains s (if source then ''mass_1_source'' else ''mass_1'')"
    and "contains s (if source then ''mass_2_source'' else ''mass_2'')"
    and "\<not> contains s (if source then ''total_mass_source'' else ''total_mass'')"
    and "\<not> contains s ''mass_ratio''" and "\<not> contains s ''symmetric_mass_ratio''"
    and "\<not> contains s (if source then ''chirp_mass_source'' else ''chirp_mass'')"
  shows "generate_component_masses s True source =
           Inl (KeyError ''Insufficient mass parameters in input dictionary'')"
    and "generate_component_masses s False source = Inl (KeyError ''mass_ratio'')"
  using assms
  by (simp_all add: generate_component_masses_def gcm_mass_2_present_def
      check_and_return_quietly_def bindE_def getitem_absent)

text \<open>
  C1. The claim asks that a sample without a spanning mass set is returned unchanged in
  the lenient mode, in all three branches. At the sample \<^verbatim>\<open>{'mass_2': 1.0}\<close> the code
  raises \<^verbatim>\<open>KeyError('mass_ratio')\<close> instead.
\<close>

theorem generate_component_masses_lenient_mass_2_raises:
  "generate_component_masses [(''mass_2'', Num 1)] False False = Inl (KeyError ''mass_ratio'')"
  by (simp add: generate_component_masses_def gcm_mass_2_present_def contains_def keys_of_def
      check_and_return_quietly_def bindE_def getitem_def)


subsection \<open>Base conversion\<close>

lemma contains_setitem: "contains (setitem d k' v) k \<longleftrightarrow> k = k' \<or> contains d k"
  by (auto simp add: contains_def keys_of_def setitem_def dom_update)

lemma getitem_setitem: "getitem (setitem d k v) k' = (if k' = k then Inr v else getitem d k')"
  by (simp add: getitem_def setitem_def update_conv')

lemma bindE_Inr: "bindE m f = Inr y \<longleftrightarrow> (\<exists>x. m = Inr x \<and> f x = Inr y)"
  by (cases m) (simp_all add: bindE_def)

lemma gcm_mass_1_present_keys:
  assumes "gcm_mass_1_present s r ''mass_1'' ''mass_2'' ''total_mass'' ''chirp_mass'' = Inr s'" and "contains s' k"
  shows "contains s k \<or> k \<in> {''mass_2'', ''mass_ratio''}"
  using assms
  by (auto simp add: gcm_mass_1_present_def Let_def bindE_Inr contains_setitem check_and_return_quietly_def split: if_splits)

lemma gcm_mass_2_present_keys:
  assumes "gcm_mass_2_present s r ''mass_1'' ''mass_2'' ''total_mass'' ''chirp_mass'' = Inr s'" and "contains s' k"
  shows "contains s k \<or> k \<in> {''mass_1'', ''mass_ratio''}"
  using assms
  by (auto simp add: gcm_mass_2_present_def Let_def bindE_Inr contains_setitem check_and_return_quietly_def split: if_splits)

lemma gcm_no_component_keys:
  assumes "gcm_no_component s r ''mass_1'' ''mass_2'' ''total_mass'' ''chirp_mass'' = Inr s'" and "contains s' k"
  shows "contains s k \<or> k \<in> {''mass_1'', ''mass_2'', ''mass_ratio'', ''total_mass'', ''symmetric_mass_ratio''}"
  using assms
  by (auto simp add: gcm_no_component_def Let_def bindE_Inr contains_setitem check_and_return_quietly_def case_prod_beta split: if_splits)

lemma generate_component_masses_keys:
  assumes "generate_component_masses s r False = Inr s'" and "contains s' k"
  shows "contains s k \<or> k \<in> {''mass_1'', ''mass_2'', ''mass_ratio'', ''total_mass'', ''symmetric_mass_ratio''}"
  using assms gcm_mass_1_present_keys [of s r s' k] gcm_mass_2_present_keys [of s r s' k] gcm_no_component_keys [of s r s' k]
  by (auto simp add: generate_component_masses_def Let_def split: if_splits)

lemma source_suffix: "drop (length key - 7) key = ''_source'' \<Longrightarrow> take (length key - 7) key = k \<Longrightarrow> key = k @ ''_source''"
  using append_take_drop_id [of "length key - 7" key] by simp

lemma source_frame_loop_keys:
  assumes "source_frame_loop c p ks d = Inr d'" and "contains d' k"
  shows "contains d k \<or> k = ''redshift'' \<or> (k @ ''_source'') \<in> set ks"
  using assms
proof (induction ks arbitrary: d)
  case Nil
  then show ?case by simp
next
  case (Cons key ks)
  show ?case
  proof (cases "drop (length key - 7) key = ''_source''")
    case False
    with Cons.prems have "source_frame_loop c p ks d = Inr d'" by simp
    from Cons.IH [OF this Cons.prems(2)] show ?thesis by auto
  next
    case True
    with Cons.prems(1) obtain d1 w where
      d1: "(if \<not> contains d ''redshift'' then
             bindE (getitem p ''luminosity_distance'') (\<lambda>dl.
             bindE (lift1 (luminosity_distance_to_redshift c) dl) (\<lambda>z.
             Inr (setitem d ''redshift'' z)))
           else Inr d) = Inr d1"
      and rec: "source_frame_loop c p ks (setitem d1 (take (length key - 7) key) w) = Inr d'"
      by (auto simp add: bindE_Inr)
    from d1 have k1: "contains d1 k \<Longrightarrow> contains d k \<or> k = ''redshift''"
      by (auto simp add: bindE_Inr contains_setitem split: if_splits)
    from Cons.IH [OF rec Cons.prems(2)]
    consider "contains (setitem d1 (take (length key - 7) key) w) k" | "k = ''redshift''" | "(k @ ''_source'') \<in> set ks"
      by auto
    then show ?thesis
    proof cases
      case 1
      then consider "k = take (length key - 7) key" | "contains d1 k" by (auto simp add: contains_setitem)
      then show ?thesis
      proof cases
        case 1
        with True source_suffix [of key k] show ?thesis by simp
      next
        case 2
        with k1 show ?thesis by auto
      qed
    qed auto
  qed
qed

lemma spin_magnitude_step_keys:
  assumes "spin_magnitude_step ks idx d = Inr d'" and "contains d' k"
  shows "contains d k \<or> k = ''a_'' @ idx \<or> k = ''cos_tilt_'' @ idx"
  using assms
  by (auto simp add: spin_magnitude_step_def Let_def bindE_Inr contains_setitem split: if_splits)

lemma default_zero_keys: "contains (default_zero key d) k \<Longrightarrow> contains d k \<or> k = key"
  by (auto simp add: default_zero_def contains_setitem split: if_splits)

lemma angle_from_cosine_keys:
  assumes "angle_from_cosine angle d = Inr d'" and "contains d' k"
  shows "contains d k \<or> k = angle"
  using assms
  by (auto simp add: angle_from_cosine_def Let_def bindE_Inr contains_setitem split: if_splits)


lemma convert_to_lal_binary_black_hole_parameters_keys:
  assumes run: "convert_to_lal_binary_black_hole_parameters c p = Inr (conv, added)"
    and k: "contains conv k"
  shows "contains p k \<or> contains p (k @ ''_source'')
       \<or> k \<in> {''luminosity_distance'', ''redshift'', ''mass_1'', ''mass_2'', ''mass_ratio'',
               ''total_mass'', ''symmetric_mass_ratio'', ''a_1'', ''cos_tilt_1'', ''a_2'',
               ''cos_tilt_2'', ''phi_jl'', ''phi_12'', ''tilt_1'', ''tilt_2'', ''theta_jn'',
               ''phase''}"
proof -
  from run obtain d1 d2 d3 d4 d5 d6 d7 d8 where
    s1: "(if ''luminosity_distance'' \<notin> set (keys_of p) then
           (if contains p ''redshift'' then
              bindE (getitem p ''redshift'') (\<lambda>z.
              bindE (lift1 (redshift_to_luminosity_distance c) z) (\<lambda>d.
              Inr (setitem p ''luminosity_distance'' d)))
            else if contains p ''comoving_distance'' then
              bindE (getitem p ''comoving_distance'') (\<lambda>cd.
              bindE (lift1 (comoving_distance_to_luminosity_distance c) cd) (\<lambda>d.
              Inr (setitem p ''luminosity_distance'' d)))
            else Inr p)
         else Inr p) = Inr d1"
    and s2: "source_frame_loop c p (keys_of p) d1 = Inr d2"
    and s3: "generate_component_masses d2 False False = Inr d3"
    and s4: "spin_magnitude_step (keys_of p) ''1'' d3 = Inr d4"
    and s5: "spin_magnitude_step (keys_of p) ''2'' d4 = Inr d5"
    and s6: "angle_from_cosine ''tilt_1'' (default_zero ''phi_12'' (default_zero ''phi_jl'' d5)) = Inr d6"
    and s7: "angle_from_cosine ''tilt_2'' d6 = Inr d7"
    and s8: "angle_from_cosine ''theta_jn'' d7 = Inr d8"
    and s9: "(if ''delta_phase'' \<in> set (keys_of p) then
           bindE (getitem d8 ''delta_phase'') (\<lambda>dp.
           bindE (getitem d8 ''theta_jn'') (\<lambda>th.
           bindE (lift1 (\<lambda>th. sgn (cos th)) th) (\<lambda>s.
           bindE (getitem d8 ''psi'') (\<lambda>psi.
           bindE (lift2 (*) s psi) (\<lambda>sp.
           bindE (lift2 (\<lambda>dp sp. np_mod (dp - sp) (2 * pi)) dp sp) (\<lambda>ph.
           Inr (setitem d8 ''phase'' ph)))))))
         else Inr d8) = Inr conv"
    unfolding convert_to_lal_binary_black_hole_parameters_def Let_def bindE_Inr by auto
  define S :: "string set" where
    "S = {''luminosity_distance'', ''redshift'', ''mass_1'', ''mass_2'', ''mass_ratio'',
          ''total_mass'', ''symmetric_mass_ratio'', ''a_1'', ''cos_tilt_1'', ''a_2'',
          ''cos_tilt_2'', ''phi_jl'', ''phi_12'', ''tilt_1'', ''tilt_2'', ''theta_jn'',
          ''phase''}"
  have mem: "''luminosity_distance'' \<in> S" "''redshift'' \<in> S" "''mass_1'' \<in> S" "''mass_2'' \<in> S"
    "''mass_ratio'' \<in> S" "''total_mass'' \<in> S" "''symmetric_mass_ratio'' \<in> S" "''a_1'' \<in> S"
    "''cos_tilt_1'' \<in> S" "''a_2'' \<in> S" "''cos_tilt_2'' \<in> S" "''phi_jl'' \<in> S" "''phi_12'' \<in> S"
    "''tilt_1'' \<in> S" "''tilt_2'' \<in> S" "''theta_jn'' \<in> S" "''phase'' \<in> S"
    by (simp_all add: S_def)
  from s9 k have "contains d8 k \<or> k = ''phase''"
    by (auto simp add: bindE_Inr contains_setitem split: if_splits)
  then have k8: "contains d8 k \<or> k \<in> S" using mem by blast
  have k7: "contains d7 k \<or> k \<in> S"
    using k8 angle_from_cosine_keys [OF s8, of k] mem by blast
  have k6: "contains d6 k \<or> k \<in> S"
    using k7 angle_from_cosine_keys [OF s7, of k] mem by blast
  have "contains (default_zero ''phi_12'' (default_zero ''phi_jl'' d5)) k \<or> k \<in> S"
    using k6 angle_from_cosine_keys [OF s6, of k] mem by blast
  then have k5: "contains d5 k \<or> k \<in> S"
    using default_zero_keys [of "''phi_12''" "default_zero ''phi_jl'' d5" k]
      default_zero_keys [of "''phi_jl''" d5 k] mem by blast
  have a: "''a_'' @ ''1'' \<in> S" "''cos_tilt_'' @ ''1'' \<in> S" "''a_'' @ ''2'' \<in> S" "''cos_tilt_'' @ ''2'' \<in> S"
    using mem by simp_all
  have k4: "contains d4 k \<or> k \<in> S"
    using k5 spin_magnitude_step_keys [OF s5, of k] a by blast
  have k3: "contains d3 k \<or> k \<in> S"
    using k4 spin_magnitude_step_keys [OF s4, of k] a by blast
  have "contains d3 k \<Longrightarrow> contains d2 k \<or> k \<in> S"
    using generate_component_masses_keys [OF s3, of k] mem by blast
  with k3 have k2: "contains d2 k \<or> k \<in> S" by blast
  have "contains d2 k \<Longrightarrow> contains d1 k \<or> k = ''redshift'' \<or> contains p (k @ ''_source'')"
    using source_frame_loop_keys [OF s2, of k] by (auto simp add: contains_def)
  with k2 have k1: "contains d1 k \<or> contains p (k @ ''_source'') \<or> k \<in> S" using mem by blast
  from s1 have "contains d1 k \<Longrightarrow> contains p k \<or> k = ''luminosity_distance''"
    by (auto simp add: bindE_Inr contains_setitem split: if_splits)
  with k1 have "contains p k \<or> contains p (k @ ''_source'') \<or> k \<in> S" using mem by blast
  then show ?thesis unfolding S_def .
qed

lemmas conversion_eval =
  convert_to_lal_binary_neutron_star_parameters_def convert_to_lal_binary_black_hole_parameters_def
  generate_component_masses_def gcm_mass_1_present_def gcm_mass_2_present_def gcm_no_component_def
  check_and_return_quietly_def spin_magnitude_step_def default_zero_def angle_from_cosine_def
  contains_def keys_of_def getitem_def setitem_def bindE_def lift1_def lift2_def truediv_def Let_def
  lambda_2_from_lambda_1_def set_lambdas_def redshift_to_luminosity_distance_def
  luminosity_distance_to_redshift_def example_cosmology_def example_eos_def

text \<open>
  C9, as stated, fails: the sample
  \<^verbatim>\<open>{'lambda_1_source': 1, 'redshift': 0, 'mass_1': 2, 'mass_2': 1}\<close> has none of the
  five keys, yet the black-hole conversion turns \<^verbatim>\<open>lambda_1_source\<close> into \<^verbatim>\<open>lambda_1\<close>
  (lines 204--211), the default of lines 302--307 is skipped, and the result has
  \<open>lambda_1 = 1\<close> and \<open>lambda_2 = 32\<close>.
\<close>

theorem neutron_star_default_tides_counterexample:
  "\<not> list_ex (contains [(''lambda_1_source'', Num 1), (''redshift'', Num 0),
                        (''mass_1'', Num 2), (''mass_2'', Num 1)])
       [''lambda_1'', ''lambda_2'', ''lambda_tilde'', ''delta_lambda_tilde'', ''eos_spectral_gamma_0'']
   \<and> convert_to_lal_binary_neutron_star_parameters example_cosmology example_eos
       [(''lambda_1_source'', Num 1), (''redshift'', Num 0), (''mass_1'', Num 2), (''mass_2'', Num 1)] =
     Inr ([(''lambda_1_source'', Num 1), (''redshift'', Num 0), (''mass_1'', Num 2),
           (''mass_2'', Num 1), (''luminosity_distance'', Num 0), (''lambda_1'', Num 1),
           (''phi_jl'', Num 0), (''phi_12'', Num 0), (''lambda_2'', Num 32)],
          [''luminosity_distance'', ''lambda_1'', ''phi_jl'', ''phi_12'', ''lambda_2''])"
  by (simp add: conversion_eval)

text \<open>
  C9, amended. If the sample has none of the five keys, also none of them followed by
  \<^verbatim>\<open>_source\<close>, and the black-hole conversion returns \<open>(conv, added)\<close>, then the
  neutron-star conversion returns \<open>conv\<close> with \<open>lambda_1 = 0\<close> and \<open>lambda_2 = 0\<close>, and
  \<open>added\<close> followed by both keys.
\<close>

theorem neutron_star_default_tides:
  assumes bbh: "convert_to_lal_binary_black_hole_parameters cosmology parameters = Inr (conv, added)"
    and absent: "\<not> list_ex (contains parameters)
               [''lambda_1'', ''lambda_2'', ''lambda_tilde'', ''delta_lambda_tilde'',
                 ''eos_spectral_gamma_0'', ''lambda_1_source'', ''lambda_2_source'',
                 ''lambda_tilde_source'', ''delta_lambda_tilde_source'',
                 ''eos_spectral_gamma_0_source'']"
  shows "\<exists>out added'.
           convert_to_lal_binary_neutron_star_parameters cosmology eos parameters = Inr (out, added')
         \<and> out = setitem (setitem conv ''lambda_1'' (Num 0)) ''lambda_2'' (Num 0)
         \<and> added' = added @ [''lambda_1'', ''lambda_2'']
         \<and> getitem out ''lambda_1'' = Inr (Num 0) \<and> getitem out ''lambda_2'' = Inr (Num 0)
         \<and> ''lambda_1'' \<in> set added' \<and> ''lambda_2'' \<in> set added'"
proof -
  have none: "\<not> contains conv k"
    if "k \<in> set [''lambda_1'', ''lambda_2'', ''lambda_tilde'', ''delta_lambda_tilde'',
                  ''eos_spectral_gamma_0'']" for k
  proof
    assume conv: "contains conv k"
    have five: "k = ''lambda_1'' \<or> k = ''lambda_2'' \<or> k = ''lambda_tilde''
        \<or> k = ''delta_lambda_tilde'' \<or> k = ''eos_spectral_gamma_0''"
      using that by simp
    have np: "\<not> contains parameters k" "\<not> contains parameters (k @ ''_source'')"
      using absent five by (auto simp add: list_ex_iff)
    from convert_to_lal_binary_black_hole_parameters_keys [OF bbh conv]
    have "contains parameters k \<or> contains parameters (k @ ''_source'')"
      using five by (elim disjE) simp_all
    with np show False by simp
  qed
  then have "\<not> list_ex (contains conv)
       [''lambda_1'', ''lambda_2'', ''lambda_tilde'', ''delta_lambda_tilde'', ''eos_spectral_gamma_0'']"
    by (simp add: list_ex_iff)
  then have "convert_to_lal_binary_neutron_star_parameters cosmology eos parameters =
      Inr (setitem (setitem conv ''lambda_1'' (Num 0)) ''lambda_2'' (Num 0),
           added @ [''lambda_1'', ''lambda_2''])"
    using bbh by (simp add: convert_to_lal_binary_neutron_star_parameters_def bindE_def)
  then show ?thesis by (simp add: getitem_setitem)
qed

theorem neutron_star_default_tides_witness:
  "convert_to_lal_binary_black_hole_parameters example_cosmology
       [(''mass_1'', Num 2), (''mass_2'', Num 1)] =
     Inr ([(''mass_1'', Num 2), (''mass_2'', Num 1), (''phi_jl'', Num 0), (''phi_12'', Num 0)],
          [''phi_jl'', ''phi_12''])
   \<and> \<not> list_ex (contains [(''mass_1'', Num 2), (''mass_2'', Num 1)])
               [''lambda_1'', ''lambda_2'', ''lambda_tilde'', ''delta_lambda_tilde'',
                 ''eos_spectral_gamma_0'', ''lambda_1_source'', ''lambda_2_source'',
                 ''lambda_tilde_source'', ''delta_lambda_tilde_source'',
                 ''eos_spectral_gamma_0_source'']
   \<and> convert_to_lal_binary_neutron_star_parameters example_cosmology example_eos
       [(''mass_1'', Num 2), (''mass_2'', Num 1)] =
     Inr ([(''mass_1'', Num 2), (''mass_2'', Num 1), (''phi_jl'', Num 0), (''phi_12'', Num 0),
           (''lambda_1'', Num 0), (''lambda_2'', Num 0)],
          [''phi_jl'', ''phi_12'', ''lambda_1'', ''lambda_2''])"
proof -
  have bbh: "convert_to_lal_binary_black_hole_parameters example_cosmology
       [(''mass_1'', Num 2), (''mass_2'', Num 1)] =
     Inr ([(''mass_1'', Num 2), (''mass_2'', Num 1), (''phi_jl'', Num 0), (''phi_12'', Num 0)],
          [''phi_jl'', ''phi_12''])"
    by (simp add: conversion_eval)
  have absent: "\<not> list_ex (contains [(''mass_1'', Num 2), (''mass_2'', Num 1)])
               [''lambda_1'', ''lambda_2'', ''lambda_tilde'', ''delta_lambda_tilde'',
                 ''eos_spectral_gamma_0'', ''lambda_1_source'', ''lambda_2_source'',
                 ''lambda_tilde_source'', ''delta_lambda_tilde_source'',
                 ''eos_spectral_gamma_0_source'']"
    by (simp add: contains_def keys_of_def)
  from neutron_star_default_tides [OF bbh absent, of example_eos]
  have "convert_to_lal_binary_neutron_star_parameters example_cosmology example_eos
       [(''mass_1'', Num 2), (''mass_2'', Num 1)] =
     Inr (setitem (setitem [(''mass_1'', Num 2), (''mass_2'', Num 1), (''phi_jl'', Num 0),
                            (''phi_12'', Num 0)] ''lambda_1'' (Num 0)) ''lambda_2'' (Num 0),
          [''phi_jl'', ''phi_12''] @ [''lambda_1'', ''lambda_2''])"
    by blast
  then show ?thesis using bbh absent by (simp add: setitem_def)
qed


subsection \<open>Reconstruction of marginalized parameters\<close>

text \<open>
  C7, as stated, fails in its last part: with no marginalized parameter the function
  returns before it looks at the type of its input, so an input that is neither a point
  nor a table is returned and nothing is raised.
\<close>

theorem reconstruction_unsupported_type_counterexample:
  "generate_posterior_samples_from_marginalized_likelihood
     \<lparr>w_store = (\<lambda>r. Unsupported), w_files = (\<lambda>name. None), w_clean = False\<rparr> 0
     (example_likelihood\<lparr>marginalized_parameters := []\<rparr>) 1 10 True =
   Some \<lparr>result = Inr 0,
         world_after = \<lparr>w_store = (\<lambda>r. Unsupported), w_files = (\<lambda>name. None), w_clean = False\<rparr>,
         likelihood_after = example_likelihood\<lparr>marginalized_parameters := []\<rparr>, filled = []\<rparr>"
  by (simp add: generate_posterior_samples_from_marginalized_likelihood_def example_likelihood_def)

text \<open>
  C7, amended. With no marginalized parameter, or with a single point as input, the
  function returns its input and changes nothing (no object, no file, not the
  likelihood, no call of \<^verbatim>\<open>fill_sample\<close>). With at least one marginalized parameter and
  an input that is neither a point nor a table it raises \<^verbatim>\<open>ValueError\<close>, again
  changing nothing.
\<close>

theorem reconstruction_no_op_or_unsupported:
  "((marginalized_parameters likelihood = [] \<or> (\<exists>d. w_store w samples = Point d)) \<longrightarrow>
      generate_posterior_samples_from_marginalized_likelihood w samples likelihood npool block use_cache =
      Some \<lparr>result = Inr samples, world_after = w, likelihood_after = likelihood, filled = []\<rparr>)
   \<and> (marginalized_parameters likelihood \<noteq> [] \<and> w_store w samples = Unsupported \<longrightarrow>
      generate_posterior_samples_from_marginalized_likelihood w samples likelihood npool block use_cache =
      Some \<lparr>result = Inl (ValueError ''Unable to handle input samples of type''),
            world_after = w, likelihood_after = likelihood, filled = []\<rparr>)"
  by (auto simp add: generate_posterior_samples_from_marginalized_likelihood_def)

theorem reconstruction_no_op_or_unsupported_witness:
  "w_store \<lparr>w_store = (\<lambda>r. Point [(''mass_1'', Num 2)]), w_files = (\<lambda>name. None), w_clean = False\<rparr> 0
     = Point [(''mass_1'', Num 2)]
   \<and> generate_posterior_samples_from_marginalized_likelihood
       \<lparr>w_store = (\<lambda>r. Point [(''mass_1'', Num 2)]), w_files = (\<lambda>name. None), w_clean = False\<rparr> 0
       example_likelihood 1 10 True =
     Some \<lparr>result = Inr 0,
           world_after = \<lparr>w_store = (\<lambda>r. Point [(''mass_1'', Num 2)]), w_files = (\<lambda>name. None),
                           w_clean = False\<rparr>,
           likelihood_after = example_likelihood, filled = []\<rparr>
   \<and> marginalized_parameters example_likelihood \<noteq> []
   \<and> w_store \<lparr>w_store = (\<lambda>r. Unsupported), w_files = (\<lambda>name. None), w_clean = False\<rparr> 0 = Unsupported
   \<and> generate_posterior_samples_from_marginalized_likelihood
       \<lparr>w_store = (\<lambda>r. Unsupported), w_files = (\<lambda>name. None), w_clean = False\<rparr> 0
       example_likelihood 1 10 True =
     Some \<lparr>result = Inl (ValueError ''Unable to handle input samples of type''),
           world_after = \<lparr>w_store = (\<lambda>r. Unsupported), w_files = (\<lambda>name. None), w_clean = False\<rparr>,
           likelihood_after = example_likelihood, filled = []\<rparr>"
proof -
  have m: "marginalized_parameters example_likelihood \<noteq> []"
    by (simp add: example_likelihood_def)
  show ?thesis
    using m
      reconstruction_no_op_or_unsupported
        [of example_likelihood
          "\<lparr>w_store = (\<lambda>r. Point [(''mass_1'', Num 2)]), w_files = (\<lambda>name. None), w_clean = False\<rparr>"
          0 1 10 True]
      reconstruction_no_op_or_unsupported
        [of example_likelihood
          "\<lparr>w_store = (\<lambda>r. Unsupported), w_files = (\<lambda>name. None), w_clean = False\<rparr>"
          0 1 10 True]
    by simp
qed

lemma update_absent: "k \<notin> set (map fst al) \<Longrightarrow> AList.update k v al = al @ [(k, v)]"
  by (induction al) auto

lemma map_rows_append:
  "map_rows row likelihood (xs @ ys) =
     (case map_rows row likelihood xs of
        (Inl e, l) \<Rightarrow> (Inl e, l)
      | (Inr vs, l) \<Rightarrow>
          (case map_rows row l ys of
             (Inl e, l') \<Rightarrow> (Inl e, l')
           | (Inr ws, l') \<Rightarrow> (Inr (vs @ ws), l')))"
  by (induction xs arbitrary: likelihood) (auto split: prod.splits sum.splits)

lemma pool_map_append:
  "pool_map row likelihood (xs @ ys) =
     bindE (pool_map row likelihood xs) (\<lambda>vs.
     bindE (pool_map row likelihood ys) (\<lambda>ws. Inr (vs @ ws)))"
  by (induction xs) (auto simp add: bindE_def split: sum.splits)

lemma map_block_append:
  "map_block row pool likelihood (xs @ ys) =
     (case map_block row pool likelihood xs of
        (Inl e, l) \<Rightarrow> (Inl e, l)
      | (Inr vs, l) \<Rightarrow>
          (case map_block row pool l ys of
             (Inl e, l') \<Rightarrow> (Inl e, l')
           | (Inr ws, l') \<Rightarrow> (Inr (vs @ ws), l')))"
proof (cases pool)
  case True
  then show ?thesis
    by (simp add: map_block_def pool_map_append bindE_def split: sum.splits)
next
  case False
  then show ?thesis
    by (simp add: map_block_def map_rows_append split: prod.splits sum.splits)
qed

lemma map_rows_length:
  "map_rows row likelihood xs = (Inr vs, l) \<Longrightarrow> length vs = length xs"
  by (induction xs arbitrary: likelihood vs) (auto split: prod.splits sum.splits)

lemma pool_map_length:
  "pool_map row likelihood xs = Inr vs \<Longrightarrow> length vs = length xs"
  by (induction xs arbitrary: vs) (auto simp add: bindE_def split: sum.splits)

lemma map_block_length:
  "map_block row pool likelihood xs = (Inr vs, l) \<Longrightarrow> length vs = length xs"
  by (auto simp add: map_block_def map_rows_length pool_map_length split: if_splits)

lemma chunks_Nil: "chunks block ii [] = []"
  by (simp add: chunks.simps)

lemma chunks_Cons:
  "0 < block \<Longrightarrow> rows \<noteq> [] \<Longrightarrow>
   chunks block ii rows = (ii, take block rows) # chunks block (ii + block) (drop block rows)"
  by (subst chunks.simps) simp

lemma concat_chunks: "0 < block \<Longrightarrow> concat (map snd (chunks block ii rows)) = rows"
proof (induction "length rows" arbitrary: ii rows rule: less_induct)
  case less
  show ?case
  proof (cases "rows = []")
    case True
    then show ?thesis by (simp add: chunks_Nil)
  next
    case False
    then have "length (drop block rows) < length rows" using less.prems by simp
    from less.hyps [OF this less.prems] False less.prems show ?thesis
      by (simp add: chunks_Cons)
  qed
qed

lemma map_fst_iterrows: "map fst (iterrows df) = [0..<df_nrows df]"
  by (simp add: iterrows_def comp_def Let_def)

lemma length_iterrows: "length (iterrows df) = df_nrows df"
  by (simp add: iterrows_def Let_def)


lemma block_loop_fresh:
  assumes "0 < block"
    and "\<And>k. k \<in> set (map fst (cache_blocks (ls_cache st))) \<Longrightarrow> k < ls_ii st"
  shows "\<exists>r st'. block_loop row pool block use_cache fname args st = Some (r, st')
           \<and> (r = Inr () \<longrightarrow> ls_filled st' = ls_filled st @ map fst (drop (ls_ii st) args))"
  using assms
proof (induction "length args - ls_ii st" arbitrary: st rule: less_induct)
  case less
  show ?case
  proof (cases "ls_ii st < length args")
    case False
    then show ?thesis by (subst block_loop.simps) simp
  next
    case True
    have notin: "ls_ii st \<notin> set (map fst (cache_blocks (ls_cache st)))"
      using less.prems(2) [of "ls_ii st"] by auto
    let ?args = "take block (drop (ls_ii st) args)"
    obtain r1 likelihood where run1: "map_block row pool (ls_likelihood st) ?args = (r1, likelihood)"
      by (cases "map_block row pool (ls_likelihood st) ?args")
    show ?thesis
    proof (cases r1)
      case (Inl e)
      then show ?thesis using True notin run1 by (subst block_loop.simps) (simp add: Let_def)
    next
      case (Inr subset_samples)
      define c2 where "c2 = (ls_cache st)\<lparr>cache_blocks :=
                          AList.update (ls_ii st) subset_samples (cache_blocks (ls_cache st))\<rparr>"
      define st2 where "st2 = st\<lparr>ls_ii := ls_ii st + block, ls_cache := c2,
                         ls_likelihood := likelihood,
                         ls_files := (if use_cache then (ls_files st)(fname \<mapsto> Pickled c2) else ls_files st),
                         ls_filled := ls_filled st @ map fst ?args\<rparr>"
      have step: "block_loop row pool block use_cache fname args st =
                  block_loop row pool block use_cache fname args st2"
        using True notin run1 Inr by (subst block_loop.simps) (simp add: Let_def st2_def c2_def)
      have m: "length args - ls_ii st2 < length args - ls_ii st"
        using True less.prems(1) by (simp add: st2_def)
      have inv: "k < ls_ii st2" if "k \<in> set (map fst (cache_blocks (ls_cache st2)))" for k
      proof -
        from that have "k = ls_ii st \<or> k \<in> set (map fst (cache_blocks (ls_cache st)))"
          by (auto simp add: st2_def c2_def dom_update)
        then have "k \<le> ls_ii st"
        proof
          assume "k = ls_ii st"
          then show ?thesis by simp
        next
          assume "k \<in> set (map fst (cache_blocks (ls_cache st)))"
          then have "k < ls_ii st" by (rule less.prems(2))
          then show ?thesis by simp
        qed
        then show ?thesis using less.prems(1) by (simp add: st2_def)
      qed
      from less.hyps [OF m less.prems(1) inv] obtain r st' where
        run: "block_loop row pool block use_cache fname args st2 = Some (r, st')"
        and f: "r = Inr () \<longrightarrow> ls_filled st' = ls_filled st2 @ map fst (drop (ls_ii st2) args)"
        by blast
      have "take block (drop (ls_ii st) args) @ drop (ls_ii st + block) args = drop (ls_ii st) args"
        using append_take_drop_id [of block "drop (ls_ii st) args"] by (simp add: add.commute)
      then have "map fst ?args @ map fst (drop (ls_ii st + block) args) = map fst (drop (ls_ii st) args)"
        by (metis map_append)
      with f have "r = Inr () \<longrightarrow> ls_filled st' = ls_filled st @ map fst (drop (ls_ii st) args)"
        by (simp add: st2_def)
      with step run show ?thesis by simp
    qed
  qed
qed

lemma block_loop_fresh_blocks:
  assumes "0 < block"
    and "\<And>k. k \<in> set (map fst (cache_blocks (ls_cache st))) \<Longrightarrow> k < ls_ii st"
    and "map_block row pool (ls_likelihood st) (drop (ls_ii st) args) = (Inr vals, likelihood')"
  shows "\<exists>st'. block_loop row pool block use_cache fname args st = Some (Inr (), st')
           \<and> ls_cache st' = (ls_cache st)\<lparr>cache_blocks :=
                 cache_blocks (ls_cache st) @ chunks block (ls_ii st) vals\<rparr>
           \<and> ls_likelihood st' = likelihood'
           \<and> ls_files st' =
               (if use_cache \<and> ls_ii st < length args
                then (ls_files st)(fname \<mapsto> Pickled ((ls_cache st)\<lparr>cache_blocks :=
                        cache_blocks (ls_cache st) @ chunks block (ls_ii st) vals\<rparr>))
                else ls_files st)
           \<and> ls_filled st' = ls_filled st @ map fst (drop (ls_ii st) args)"
  using assms
proof (induction "length args - ls_ii st" arbitrary: st vals rule: less_induct)
  case less
  show ?case
  proof (cases "ls_ii st < length args")
    case False
    with less.prems(3) have "vals = []" and "likelihood' = ls_likelihood st"
      by (simp_all add: map_block_def split: if_splits)
    with False show ?thesis by (subst block_loop.simps) (simp add: chunks_Nil)
  next
    case True
    have notin: "ls_ii st \<notin> set (map fst (cache_blocks (ls_cache st)))"
      using less.prems(2) [of "ls_ii st"] by auto
    let ?args = "take block (drop (ls_ii st) args)"
    let ?rest = "drop (ls_ii st + block) args"
    have parts: "drop (ls_ii st) args = ?args @ ?rest"
      using append_take_drop_id [of block "drop (ls_ii st) args"] by (simp add: add.commute)
    have nonempty: "?args \<noteq> []" using True less.prems(1) by simp
    from less.prems(3) obtain vs1 l1 vs2 where
      run1: "map_block row pool (ls_likelihood st) ?args = (Inr vs1, l1)"
      and run2: "map_block row pool l1 ?rest = (Inr vs2, likelihood')"
      and vals: "vals = vs1 @ vs2"
      by (subst (asm) parts) (auto simp add: map_block_append split: prod.splits sum.splits)
    have len1: "length vs1 = length ?args" using run1 by (rule map_block_length)
    have len2: "length vs2 = length ?rest" using run2 by (rule map_block_length)
    have ne: "vals \<noteq> []" using nonempty len1 vals by auto
    have tk: "take block vals = vs1 \<and> drop block vals = vs2"
    proof (cases "block \<le> length args - ls_ii st")
      case True
      then have "length vs1 = block" using len1 by simp
      then show ?thesis by (simp add: vals)
    next
      case False
      then have "vs2 = []" using len2 by simp
      moreover have "length vs1 \<le> block" using len1 by simp
      ultimately show ?thesis by (simp add: vals)
    qed
    have ch: "chunks block (ls_ii st) vals = (ls_ii st, vs1) # chunks block (ls_ii st + block) vs2"
      using less.prems(1) ne tk by (simp add: chunks_Cons)
    define c2 where "c2 = (ls_cache st)\<lparr>cache_blocks :=
                        AList.update (ls_ii st) vs1 (cache_blocks (ls_cache st))\<rparr>"
    define st2 where "st2 = st\<lparr>ls_ii := ls_ii st + block, ls_cache := c2,
                       ls_likelihood := l1,
                       ls_files := (if use_cache then (ls_files st)(fname \<mapsto> Pickled c2) else ls_files st),
                       ls_filled := ls_filled st @ map fst ?args\<rparr>"
    have c2: "c2 = (ls_cache st)\<lparr>cache_blocks := cache_blocks (ls_cache st) @ [(ls_ii st, vs1)]\<rparr>"
      using notin by (simp add: c2_def update_absent)
    have step: "block_loop row pool block use_cache fname args st =
                block_loop row pool block use_cache fname args st2"
      using True notin run1 by (subst block_loop.simps) (simp add: Let_def st2_def c2_def)
    have m: "length args - ls_ii st2 < length args - ls_ii st"
      using True less.prems(1) by (simp add: st2_def)
    have inv: "k < ls_ii st2" if "k \<in> set (map fst (cache_blocks (ls_cache st2)))" for k
    proof -
      from that have "k = ls_ii st \<or> k \<in> set (map fst (cache_blocks (ls_cache st)))"
        by (auto simp add: st2_def c2)
      then have "k \<le> ls_ii st"
      proof
        assume "k = ls_ii st"
        then show ?thesis by simp
      next
        assume "k \<in> set (map fst (cache_blocks (ls_cache st)))"
        then have "k < ls_ii st" by (rule less.prems(2))
        then show ?thesis by simp
      qed
      then show ?thesis using less.prems(1) by (simp add: st2_def)
    qed
    have run2': "map_block row pool (ls_likelihood st2) (drop (ls_ii st2) args) = (Inr vs2, likelihood')"
      using run2 by (simp add: st2_def)
    from less.hyps [OF m less.prems(1) inv run2'] obtain st' where
      run: "block_loop row pool block use_cache fname args st2 = Some (Inr (), st')"
      and c: "ls_cache st' = (ls_cache st2)\<lparr>cache_blocks :=
                 cache_blocks (ls_cache st2) @ chunks block (ls_ii st2) vs2\<rparr>"
      and l: "ls_likelihood st' = likelihood'"
      and f: "ls_files st' =
               (if use_cache \<and> ls_ii st2 < length args
                then (ls_files st2)(fname \<mapsto> Pickled ((ls_cache st2)\<lparr>cache_blocks :=
                        cache_blocks (ls_cache st2) @ chunks block (ls_ii st2) vs2\<rparr>))
                else ls_files st2)"
      and fl: "ls_filled st' = ls_filled st2 @ map fst (drop (ls_ii st2) args)"
      by blast
    define final where "final = (ls_cache st)\<lparr>cache_blocks :=
                 cache_blocks (ls_cache st) @ chunks block (ls_ii st) vals\<rparr>"
    have c': "ls_cache st' = final"
      using c by (simp add: st2_def c2 ch final_def)
    have last: "vs2 = []" if "\<not> ls_ii st + block < length args"
      using that len2 by simp
    have f': "ls_files st' = (if use_cache then (ls_files st)(fname \<mapsto> Pickled final) else ls_files st)"
    proof (cases "ls_ii st + block < length args")
      case True
      then show ?thesis using f by (simp add: st2_def c2 ch final_def)
    next
      case False
      then show ?thesis using f last [OF False] by (simp add: st2_def c2 ch final_def chunks_Nil)
    qed
    have "map fst ?args @ map fst ?rest = map fst (drop (ls_ii st) args)"
      using parts by (metis map_append)
    with fl have fl': "ls_filled st' = ls_filled st @ map fst (drop (ls_ii st) args)"
      by (simp add: st2_def)
    from step run c' l f' fl' True show ?thesis by (simp add: final_def)
  qed
qed


lemma getitems_length: "getitems d keys = Inr vs \<Longrightarrow> length vs = length keys"
  by (induction keys arbitrary: vs) (auto simp add: bindE_def split: sum.splits)

lemma fill_sample_row:
  assumes "fill_sample likelihood xx = (r, l)"
  shows "marginalized_parameters l = marginalized_parameters likelihood"
    and "r = Inr vs \<Longrightarrow> length vs = length (marginalized_parameters likelihood)"
  using assms
  by (auto simp add: fill_sample_def Let_def getitems_length split: prod.splits)

lemma map_rows_fill_sample:
  assumes "map_rows fill_sample likelihood xs = (r, l)"
  shows "marginalized_parameters l = marginalized_parameters likelihood
       \<and> (\<forall>vals. r = Inr vals \<longrightarrow>
            (\<forall>vs \<in> set vals. length vs = length (marginalized_parameters likelihood)))"
  using assms
proof (induction xs arbitrary: likelihood r l)
  case Nil
  then show ?case by auto
next
  case (Cons xx xs)
  obtain r1 l1 where one: "fill_sample likelihood xx = (r1, l1)" by (cases "fill_sample likelihood xx")
  note row = fill_sample_row [OF one]
  show ?case
  proof (cases r1)
    case (Inl e)
    with Cons.prems one row(1) show ?thesis by auto
  next
    case (Inr vs)
    obtain r2 l2 where rest: "map_rows fill_sample l1 xs = (r2, l2)"
      by (cases "map_rows fill_sample l1 xs")
    from Cons.IH [OF rest] row(1)
    have m: "marginalized_parameters l2 = marginalized_parameters likelihood"
      and all: "\<And>vals. r2 = Inr vals \<Longrightarrow>
            (\<forall>vs \<in> set vals. length vs = length (marginalized_parameters likelihood))"
      by auto
    show ?thesis
    proof (cases r2)
      case (Inl e)
      with Cons.prems one Inr rest m show ?thesis by auto
    next
      case (Inr vals2)
      with Cons.prems one \<open>r1 = Inr vs\<close> rest m all [OF Inr] row(2) [OF \<open>r1 = Inr vs\<close>]
      show ?thesis by auto
    qed
  qed
qed

lemma pool_map_fill_sample:
  assumes "pool_map fill_sample likelihood xs = Inr vals"
  shows "\<forall>vs \<in> set vals. length vs = length (marginalized_parameters likelihood)"
  using assms
proof (induction xs arbitrary: vals)
  case Nil
  then show ?case by simp
next
  case (Cons xx xs)
  obtain r1 l1 where one: "fill_sample likelihood xx = (r1, l1)" by (cases "fill_sample likelihood xx")
  from Cons.prems one obtain vs vals2 where r1: "r1 = Inr vs"
    and rest: "pool_map fill_sample likelihood xs = Inr vals2" and vals: "vals = vs # vals2"
    by (auto simp add: bindE_def split: sum.splits)
  from Cons.IH [OF rest] fill_sample_row(2) [OF one r1] vals show ?case by simp
qed

lemma map_block_fill_sample:
  assumes "map_block fill_sample pool likelihood xs = (Inr vals, l)"
  shows "\<forall>vs \<in> set vals. length vs = length (marginalized_parameters likelihood)"
proof (cases pool)
  case True
  with assms have "pool_map fill_sample likelihood xs = Inr vals" by (auto simp add: map_block_def)
  then show ?thesis by (rule pool_map_fill_sample)
next
  case False
  with assms have "map_rows fill_sample likelihood xs = (Inr vals, l)" by (simp add: map_block_def)
  from map_rows_fill_sample [OF this] show ?thesis by simp
qed

lemma assign_columns_total:
  assumes "new_samples \<noteq> []"
    and "\<forall>row \<in> set new_samples. \<forall>p \<in> set keys. fst p < length row"
    and "length new_samples = df_nrows df"
  shows "\<exists>df'. assign_columns dtype new_samples keys df = (Inr (), df')"
  using assms
proof (induction keys arbitrary: df)
  case Nil
  then show ?case by simp
next
  case (Cons p keys)
  obtain ii key where p: "p = (ii, key)" by (cases p)
  have "\<not> list_ex (\<lambda>row. length row \<le> ii) new_samples"
    using Cons.prems(2) p by (auto simp add: list_ex_iff)
  then have col: "take_column new_samples ii = Inr (map (\<lambda>row. row ! ii) new_samples)"
    using Cons.prems(1) by (simp add: take_column_def)
  define df1 where "df1 = df\<lparr>df_columns :=
      AList.update key (dtype, map (\<lambda>row. row ! ii) new_samples) (df_columns df)\<rparr>"
  have set: "bindE (take_column new_samples ii) (set_column df key dtype) = Inr df1"
    using Cons.prems(3) by (simp add: col bindE_def set_column_def df1_def)
  have "\<exists>df'. assign_columns dtype new_samples keys df1 = (Inr (), df')"
    using Cons.prems by (intro Cons.IH) (auto simp add: df1_def)
  with set p show ?case by simp
qed

lemma set_enumerate_less: "p \<in> set (enumerate 0 xs) \<Longrightarrow> fst p < length xs"
  by (cases p) (simp add: in_set_enumerate_eq)

lemma chunks_nonempty: "0 < block \<Longrightarrow> rows \<noteq> [] \<Longrightarrow> chunks block ii rows \<noteq> []"
  by (simp add: chunks_Cons)

lemma concatenate_chunks:
  assumes "0 < block" and "rows \<noteq> []"
  shows "concatenate (map snd (chunks block ii rows)) =
         Inr (array_dtype (concat rows), map (map (astype (array_dtype (concat rows)))) rows)"
  using assms chunks_nonempty [OF assms, of ii]
  by (simp add: concatenate_def concat_chunks Let_def)

lemma load_cache_blocks_only_when_equal:
  assumes "cache_blocks (load_cache fs clean use_cache cache_filename df) \<noteq> []"
  shows "use_cache \<and> \<not> clean \<and> fs cache_filename = Some (Pickled (load_cache fs clean use_cache cache_filename df))
       \<and> cache_samples (load_cache fs clean use_cache cache_filename df) = df"
  using assms
  by (auto simp add: load_cache_def Let_def split: if_splits option.splits file_content.splits)

lemma load_cache_mismatch:
  assumes "fs cache_filename = Some (Pickled c)" and "cache_samples c \<noteq> df"
  shows "load_cache fs clean use_cache cache_filename df = \<lparr>cache_samples = df, cache_blocks = []\<rparr>"
  using assms by (simp add: load_cache_def)

lemma load_cache_match:
  assumes "fs cache_filename = Some (Pickled c)" and "cache_samples c = df" and "use_cache" and "\<not> clean"
  shows "load_cache fs clean use_cache cache_filename df = c"
  using assms by (simp add: load_cache_def)

text \<open>
  A call on a table whose cache dictionary is loaded without blocks: when every draw
  succeeds, the call computes all blocks, leaves them in the cache file, and assigns
  the drawn values into the table.
\<close>

lemma reconstruction_without_blocks:
  assumes table: "w_store w samples = Table df"
    and marg: "marginalized_parameters likelihood \<noteq> []"
    and od: "lik_outdir likelihood = Some outdir" and lb: "lik_label likelihood = Some label"
    and name: "cache_filename = outdir @ ''/.'' @ label @ ''_generate_posterior_cache.pickle''"
    and fresh: "load_cache (w_files w) (w_clean w) use_cache cache_filename df =
                  \<lparr>cache_samples = df, cache_blocks = []\<rparr>"
    and block: "0 < block"
    and rows: "0 < df_nrows df"
    and draws: "map_block fill_sample (1 < npool) likelihood (iterrows df) = (Inr vals, likelihood')"
  shows "\<exists>df'. assign_columns (array_dtype (concat vals))
                  (map (map (astype (array_dtype (concat vals)))) vals)
                  (enumerate 0 (marginalized_parameters likelihood)) df = (Inr (), df')
           \<and> generate_posterior_samples_from_marginalized_likelihood
                w samples likelihood npool block use_cache =
              Some \<lparr>result = Inr samples,
                    world_after = w\<lparr>w_files :=
                        (if use_cache
                         then (w_files w)(cache_filename \<mapsto>
                                Pickled \<lparr>cache_samples = df, cache_blocks = chunks block 0 vals\<rparr>)
                         else w_files w),
                      w_store := (w_store w)(samples := Table df')\<rparr>,
                    likelihood_after = likelihood', filled = [0..<df_nrows df]\<rparr>"
proof -
  define st0 where "st0 = \<lparr>ls_ii = 0, ls_cache = \<lparr>cache_samples = df, cache_blocks = []\<rparr>,
      ls_likelihood = likelihood, ls_files = w_files w, ls_filled = []\<rparr>"
  define dt where "dt = array_dtype (concat vals)"
  have len: "length vals = df_nrows df"
    using map_block_length [OF draws] by (simp add: length_iterrows)
  then have ne: "vals \<noteq> []" using rows by auto
  have inv: "\<And>k. k \<in> set (map fst (cache_blocks (ls_cache st0))) \<Longrightarrow> k < ls_ii st0"
    by (simp add: st0_def)
  have run: "map_block fill_sample (1 < npool) (ls_likelihood st0) (drop (ls_ii st0) (iterrows df)) =
      (Inr vals, likelihood')"
    using draws by (simp add: st0_def)
  from block_loop_fresh_blocks [OF block inv run, of use_cache cache_filename]
  obtain st' where
    loop: "block_loop fill_sample (1 < npool) block use_cache cache_filename (iterrows df) st0 =
             Some (Inr (), st')"
    and c0: "ls_cache st' = (ls_cache st0)\<lparr>cache_blocks :=
                 cache_blocks (ls_cache st0) @ chunks block (ls_ii st0) vals\<rparr>"
    and l: "ls_likelihood st' = likelihood'"
    and f0: "ls_files st' =
               (if use_cache \<and> ls_ii st0 < length (iterrows df)
                then (ls_files st0)(cache_filename \<mapsto> Pickled ((ls_cache st0)\<lparr>cache_blocks :=
                        cache_blocks (ls_cache st0) @ chunks block (ls_ii st0) vals\<rparr>))
                else ls_files st0)"
    and fl0: "ls_filled st' = ls_filled st0 @ map fst (drop (ls_ii st0) (iterrows df))"
    by blast
  have c: "ls_cache st' = \<lparr>cache_samples = df, cache_blocks = chunks block 0 vals\<rparr>"
    using c0 by (simp add: st0_def)
  have f: "ls_files st' =
              (if use_cache
               then (w_files w)(cache_filename \<mapsto>
                      Pickled \<lparr>cache_samples = df, cache_blocks = chunks block 0 vals\<rparr>)
               else w_files w)"
    using f0 rows by (simp add: st0_def length_iterrows)
  have fl: "ls_filled st' = [0..<df_nrows df]"
    using fl0 by (simp add: st0_def map_fst_iterrows)
  have cat: "concatenate (map snd (cache_blocks (ls_cache st'))) =
      Inr (dt, map (map (astype dt)) vals)"
    using concatenate_chunks [OF block ne, of 0] by (simp add: c dt_def)
  have widths: "\<forall>row \<in> set (map (map (astype dt)) vals).
      \<forall>p \<in> set (enumerate 0 (marginalized_parameters likelihood)). fst p < length row"
    using map_block_fill_sample [OF draws] set_enumerate_less by auto
  have "\<exists>df'. assign_columns dt (map (map (astype dt)) vals)
                  (enumerate 0 (marginalized_parameters likelihood)) df = (Inr (), df')"
    using ne widths len by (intro assign_columns_total) simp_all
  then obtain df' where a: "assign_columns dt (map (map (astype dt)) vals)
                  (enumerate 0 (marginalized_parameters likelihood)) df = (Inr (), df')"
    by blast
  have m: "length (marginalized_parameters likelihood) \<noteq> 0" using marg by simp
  have "generate_posterior_samples_from_marginalized_likelihood
                w samples likelihood npool block use_cache =
              Some \<lparr>result = Inr samples,
                    world_after = w\<lparr>w_files :=
                        (if use_cache
                         then (w_files w)(cache_filename \<mapsto>
                                Pickled \<lparr>cache_samples = df, cache_blocks = chunks block 0 vals\<rparr>)
                         else w_files w),
                      w_store := (w_store w)(samples := Table df')\<rparr>,
                    likelihood_after = likelihood', filled = [0..<df_nrows df]\<rparr>"
    using table m od lb name [symmetric] fresh loop cat a l f fl
    by (simp add: generate_posterior_samples_from_marginalized_likelihood_def
        st0_def [symmetric] Let_def)
  with a show ?thesis unfolding dt_def by blast
qed


lemmas reconstruction_eval =
  generate_posterior_samples_from_marginalized_likelihood_def load_cache_def
  iterrows_def row_dtype_def fill_sample_def map_block_def dict_update_def setitem_def getitem_def
  bindE_def example_likelihood_def example_table_def stale_cache_def example_world_def
  concatenate_def array_dtype_def promote_def take_column_def set_column_def Let_def

text \<open>
  The example: three rows in blocks of two, with the stale cache on file. Both blocks
  are computed, the file is overwritten with them, and the new column is in the table
  at the address that was passed.
\<close>

lemma reconstruction_example:
  "generate_posterior_samples_from_marginalized_likelihood example_world 0 example_likelihood 1 2 True =
   Some \<lparr>result = Inr 0,
     world_after =
       \<lparr>w_store = (\<lambda>r. Table example_table)
          (0 := Table \<lparr>df_nrows = 3,
                       df_columns = [(''mass_1'', Float64, [Num 1, Num 2, Num 3]),
                                     (''luminosity_distance'', Float64, [Num 100, Num 100, Num 100])]\<rparr>),
        w_files = [''outdir/.label_generate_posterior_cache.pickle'' \<mapsto>
          Pickled \<lparr>cache_samples = example_table,
                   cache_blocks = [(0, [[Num 100], [Num 100]]), (2, [[Num 100]])]\<rparr>],
        w_clean = False\<rparr>,
     likelihood_after = example_likelihood\<lparr>lik_parameters := [(''mass_1'', Num 3)]\<rparr>,
     filled = [0, 1, 2]\<rparr>"
  apply (simp add: reconstruction_eval upt_rec numeral_2_eq_2 numeral_3_eq_3)
  apply (subst block_loop.simps)
  apply (simp add: reconstruction_eval)
  apply (subst block_loop.simps)
  apply (simp add: reconstruction_eval)
  apply (subst block_loop.simps)
  apply (simp add: reconstruction_eval)
  done

text \<open>
  With the cache of the same table on file, the block that the file holds is not
  computed again: its rows go into the table as they are stored.
\<close>

lemma reconstruction_reuse_example:
  "generate_posterior_samples_from_marginalized_likelihood
     (example_world\<lparr>w_files := [''outdir/.label_generate_posterior_cache.pickle'' \<mapsto>
        Pickled (stale_cache\<lparr>cache_samples := example_table\<rparr>)]\<rparr>) 0 example_likelihood 1 2 True =
   Some \<lparr>result = Inr 0,
     world_after =
       \<lparr>w_store = (\<lambda>r. Table example_table)
          (0 := Table \<lparr>df_nrows = 3,
                       df_columns = [(''mass_1'', Float64, [Num 1, Num 2, Num 3]),
                                     (''luminosity_distance'', Float64, [Num 7, Num 7, Num 100])]\<rparr>),
        w_files = [''outdir/.label_generate_posterior_cache.pickle'' \<mapsto>
          Pickled \<lparr>cache_samples = example_table,
                   cache_blocks = [(0, [[Num 7], [Num 7]]), (2, [[Num 100]])]\<rparr>],
        w_clean = False\<rparr>,
     likelihood_after = example_likelihood\<lparr>lik_parameters := [(''mass_1'', Num 3)]\<rparr>,
     filled = [2]\<rparr>"
  apply (simp add: reconstruction_eval upt_rec numeral_2_eq_2 numeral_3_eq_3)
  apply (subst block_loop.simps)
  apply (simp add: reconstruction_eval)
  apply (subst block_loop.simps)
  apply (simp add: reconstruction_eval)
  apply (subst block_loop.simps)
  apply (simp add: reconstruction_eval)
  done


text \<open>
  C8. Let the cache file of the call hold a cache dictionary \<open>c\<close> and let the block
  size be positive. If the stored table differs from the current one (in a cell, in
  the dtype of a column, in a label or in the shape), the loaded dictionary has the
  current table and no block, and the call ends. When it returns a result it has
  called \<^verbatim>\<open>fill_sample\<close> for every row; and when the draws for the rows of the current
  table succeed and the table has a row, what the call leaves behind is made of these
  draws alone: all blocks of the cache file are blocks of the new draws, the columns
  assigned into the table are the columns of the new draws, and the likelihood is as
  the new draws leave it. Nothing of \<open>c\<close> is left. Conversely, blocks survive the
  loading only if the stored table equals the current one (and the cache is in use and
  the run is not a clean one), and then all of \<open>c\<close> is kept.
\<close>

theorem stale_cache_discarded:
  assumes table: "w_store w samples = Table df"
    and marg: "marginalized_parameters likelihood \<noteq> []"
    and od: "lik_outdir likelihood = Some outdir" and lb: "lik_label likelihood = Some label"
    and name: "cache_filename = outdir @ ''/.'' @ label @ ''_generate_posterior_cache.pickle''"
    and stored: "w_files w cache_filename = Some (Pickled c)"
    and block: "0 < block"
  shows "(cache_samples c \<noteq> df \<longrightarrow>
            load_cache (w_files w) (w_clean w) use_cache cache_filename df =
              \<lparr>cache_samples = df, cache_blocks = []\<rparr>
          \<and> (\<exists>out. generate_posterior_samples_from_marginalized_likelihood
                       w samples likelihood npool block use_cache = Some out
                   \<and> ((\<exists>r. result out = Inr r) \<longrightarrow>
                        result out = Inr samples \<and> filled out = [0..<df_nrows df]))
          \<and> (\<forall>vals likelihood'.
                0 < df_nrows df \<longrightarrow>
                map_block fill_sample (1 < npool) likelihood (iterrows df) = (Inr vals, likelihood') \<longrightarrow>
                (\<exists>df'. assign_columns (array_dtype (concat vals))
                          (map (map (astype (array_dtype (concat vals)))) vals)
                          (enumerate 0 (marginalized_parameters likelihood)) df = (Inr (), df')
                   \<and> generate_posterior_samples_from_marginalized_likelihood
                        w samples likelihood npool block use_cache =
                      Some \<lparr>result = Inr samples,
                            world_after = w\<lparr>w_files :=
                                (if use_cache
                                 then (w_files w)(cache_filename \<mapsto>
                                        Pickled \<lparr>cache_samples = df,
                                                 cache_blocks = chunks block 0 vals\<rparr>)
                                 else w_files w),
                              w_store := (w_store w)(samples := Table df')\<rparr>,
                            likelihood_after = likelihood', filled = [0..<df_nrows df]\<rparr>)))
       \<and> (cache_blocks (load_cache (w_files w) (w_clean w) use_cache cache_filename df) \<noteq> [] \<longrightarrow>
            cache_samples c = df \<and> use_cache \<and> \<not> w_clean w
          \<and> load_cache (w_files w) (w_clean w) use_cache cache_filename df = c)"
proof (rule conjI; rule impI)
  assume stale: "cache_samples c \<noteq> df"
  have fresh: "load_cache (w_files w) (w_clean w) use_cache cache_filename df =
      \<lparr>cache_samples = df, cache_blocks = []\<rparr>"
    using stored stale by (rule load_cache_mismatch)
  define st0 where "st0 = \<lparr>ls_ii = 0, ls_cache = \<lparr>cache_samples = df, cache_blocks = []\<rparr>,
      ls_likelihood = likelihood, ls_files = w_files w, ls_filled = []\<rparr>"
  have "\<And>k. k \<in> set (map fst (cache_blocks (ls_cache st0))) \<Longrightarrow> k < ls_ii st0"
    by (simp add: st0_def)
  from block_loop_fresh [OF block this, of fill_sample "npool > 1" use_cache cache_filename "iterrows df"]
  obtain r st' where
    loop: "block_loop fill_sample (npool > 1) block use_cache cache_filename (iterrows df) st0 =
             Some (r, st')"
    and all: "r = Inr () \<longrightarrow> ls_filled st' = [0..<df_nrows df]"
    by (auto simp add: st0_def map_fst_iterrows)
  have m: "length (marginalized_parameters likelihood) \<noteq> 0" using marg by simp
  have ends: "\<exists>out. generate_posterior_samples_from_marginalized_likelihood
                       w samples likelihood npool block use_cache = Some out
                   \<and> ((\<exists>r. result out = Inr r) \<longrightarrow>
                        result out = Inr samples \<and> filled out = [0..<df_nrows df])"
  proof (cases r)
    case (Inl e)
    then show ?thesis
      using table m od lb name [symmetric] fresh loop
      by (simp add: generate_posterior_samples_from_marginalized_likelihood_def st0_def [symmetric])
  next
    case (Inr u)
    then have ok: "ls_filled st' = [0..<df_nrows df]" using all by simp
    show ?thesis
    proof (cases "concatenate (map snd (cache_blocks (ls_cache st')))")
      case (Inl e)
      then show ?thesis
        using table m od lb name [symmetric] fresh loop Inr
        by (simp add: generate_posterior_samples_from_marginalized_likelihood_def
            st0_def [symmetric] Let_def)
    next
      case cat: (Inr p)
      obtain dt new_samples where p: "p = (dt, new_samples)" by (cases p)
      obtain r2 df2 where a: "assign_columns dt new_samples
          (enumerate 0 (marginalized_parameters likelihood)) df = (r2, df2)"
        by (cases "assign_columns dt new_samples
          (enumerate 0 (marginalized_parameters likelihood)) df")
      show ?thesis
        using table m od lb name [symmetric] fresh loop Inr ok cat p a
        by (cases r2)
          (simp_all add: generate_posterior_samples_from_marginalized_likelihood_def
            st0_def [symmetric] Let_def)
    qed
  qed
  have draws: "\<forall>vals likelihood'.
                0 < df_nrows df \<longrightarrow>
                map_block fill_sample (1 < npool) likelihood (iterrows df) = (Inr vals, likelihood') \<longrightarrow>
                (\<exists>df'. assign_columns (array_dtype (concat vals))
                          (map (map (astype (array_dtype (concat vals)))) vals)
                          (enumerate 0 (marginalized_parameters likelihood)) df = (Inr (), df')
                   \<and> generate_posterior_samples_from_marginalized_likelihood
                        w samples likelihood npool block use_cache =
                      Some \<lparr>result = Inr samples,
                            world_after = w\<lparr>w_files :=
                                (if use_cache
                                 then (w_files w)(cache_filename \<mapsto>
                                        Pickled \<lparr>cache_samples = df,
                                                 cache_blocks = chunks block 0 vals\<rparr>)
                                 else w_files w),
                              w_store := (w_store w)(samples := Table df')\<rparr>,
                            likelihood_after = likelihood', filled = [0..<df_nrows df]\<rparr>)"
    using reconstruction_without_blocks [OF table marg od lb name fresh block] by blast
  from fresh ends draws
  show "load_cache (w_files w) (w_clean w) use_cache cache_filename df =
              \<lparr>cache_samples = df, cache_blocks = []\<rparr>
          \<and> (\<exists>out. generate_posterior_samples_from_marginalized_likelihood
                       w samples likelihood npool block use_cache = Some out
                   \<and> ((\<exists>r. result out = Inr r) \<longrightarrow>
                        result out = Inr samples \<and> filled out = [0..<df_nrows df]))
          \<and> (\<forall>vals likelihood'.
                0 < df_nrows df \<longrightarrow>
                map_block fill_sample (1 < npool) likelihood (iterrows df) = (Inr vals, likelihood') \<longrightarrow>
                (\<exists>df'. assign_columns (array_dtype (concat vals))
                          (map (map (astype (array_dtype (concat vals)))) vals)
                          (enumerate 0 (marginalized_parameters likelihood)) df = (Inr (), df')
                   \<and> generate_posterior_samples_from_marginalized_likelihood
                        w samples likelihood npool block use_cache =
                      Some \<lparr>result = Inr samples,
                            world_after = w\<lparr>w_files :=
                                (if use_cache
                                 then (w_files w)(cache_filename \<mapsto>
                                        Pickled \<lparr>cache_samples = df,
                                                 cache_blocks = chunks block 0 vals\<rparr>)
                                 else w_files w),
                              w_store := (w_store w)(samples := Table df')\<rparr>,
                            likelihood_after = likelihood', filled = [0..<df_nrows df]\<rparr>))"
    by (intro conjI)
next
  assume kept: "cache_blocks (load_cache (w_files w) (w_clean w) use_cache cache_filename df) \<noteq> []"
  let ?loaded = "load_cache (w_files w) (w_clean w) use_cache cache_filename df"
  from load_cache_blocks_only_when_equal [OF kept]
  have u: "use_cache" and cl: "\<not> w_clean w"
    and f: "w_files w cache_filename = Some (Pickled ?loaded)"
    and e: "cache_samples ?loaded = df"
    by blast+
  from f stored have same: "?loaded = c" by simp
  from e same have eq: "cache_samples c = df" by simp
  from eq u cl same show "cache_samples c = df \<and> use_cache \<and> \<not> w_clean w \<and> ?loaded = c"
    by blast
qed

theorem stale_cache_discarded_witness:
  "w_store example_world 0 = Table example_table
   \<and> marginalized_parameters example_likelihood \<noteq> []
   \<and> lik_outdir example_likelihood = Some ''outdir'' \<and> lik_label example_likelihood = Some ''label''
   \<and> w_files example_world ''outdir/.label_generate_posterior_cache.pickle'' = Some (Pickled stale_cache)
   \<and> (0::nat) < 2
   \<and> cache_samples stale_cache \<noteq> example_table
   \<and> 0 < df_nrows example_table
   \<and> map_block fill_sample (1 < (1::nat)) example_likelihood (iterrows example_table) =
       (Inr [[Num 100], [Num 100], [Num 100]],
        example_likelihood\<lparr>lik_parameters := [(''mass_1'', Num 3)]\<rparr>)
   \<and> load_cache (w_files example_world) (w_clean example_world) True
        ''outdir/.label_generate_posterior_cache.pickle'' example_table =
      \<lparr>cache_samples = example_table, cache_blocks = []\<rparr>
   \<and> generate_posterior_samples_from_marginalized_likelihood
        example_world 0 example_likelihood 1 2 True =
      Some \<lparr>result = Inr 0,
            world_after = example_world\<lparr>w_files :=
                (w_files example_world)(''outdir/.label_generate_posterior_cache.pickle'' \<mapsto>
                   Pickled \<lparr>cache_samples = example_table,
                            cache_blocks = [(0, [[Num 100], [Num 100]]), (2, [[Num 100]])]\<rparr>),
              w_store := (w_store example_world)
                (0 := Table \<lparr>df_nrows = 3,
                     df_columns = [(''mass_1'', Float64, [Num 1, Num 2, Num 3]),
                                   (''luminosity_distance'', Float64, [Num 100, Num 100, Num 100])]\<rparr>)\<rparr>,
            likelihood_after = example_likelihood\<lparr>lik_parameters := [(''mass_1'', Num 3)]\<rparr>,
            filled = [0..<df_nrows example_table]\<rparr>"
proof -
  let ?vals = "[[Num 100], [Num 100], [Num 100]]"
  let ?lik = "example_likelihood\<lparr>lik_parameters := [(''mass_1'', Num 3)]\<rparr>"
  let ?df = "\<lparr>df_nrows = 3,
       df_columns = [(''mass_1'', Float64, [Num 1, Num 2, Num 3]),
                     (''luminosity_distance'', Float64, [Num 100, Num 100, Num 100])]\<rparr>"
  have table: "w_store example_world 0 = Table example_table"
    by (simp add: example_world_def)
  have marg: "marginalized_parameters example_likelihood \<noteq> []"
    and od: "lik_outdir example_likelihood = Some ''outdir''"
    and lb: "lik_label example_likelihood = Some ''label''"
    by (simp_all add: example_likelihood_def)
  have name: "''outdir/.label_generate_posterior_cache.pickle'' =
      ''outdir'' @ ''/.'' @ ''label'' @ ''_generate_posterior_cache.pickle''"
    by simp
  have stored: "w_files example_world ''outdir/.label_generate_posterior_cache.pickle'' =
      Some (Pickled stale_cache)"
    by (simp add: example_world_def)
  have block: "(0::nat) < 2" by simp
  have stale: "cache_samples stale_cache \<noteq> example_table"
    by (simp add: stale_cache_def example_table_def)
  have rows: "0 < df_nrows example_table" by (simp add: example_table_def)
  have draws: "map_block fill_sample (1 < (1::nat)) example_likelihood (iterrows example_table) =
      (Inr ?vals, ?lik)"
    by (simp add: reconstruction_eval upt_rec numeral_3_eq_3)
  have dt: "array_dtype (concat ?vals) = Float64"
    by (simp add: array_dtype_def promote_def)
  have cols: "assign_columns Float64 (map (map (astype Float64)) ?vals)
      (enumerate 0 (marginalized_parameters example_likelihood)) example_table = (Inr (), ?df)"
    by (simp add: reconstruction_eval)
  have blocks: "chunks 2 0 ?vals = [(0, [[Num 100], [Num 100]]), (2, [[Num 100]])]"
    by (simp add: chunks_Cons chunks_Nil)
  note all = stale_cache_discarded [OF table marg od lb name stored block, of True 1,
      THEN conjunct1, THEN mp, OF stale]
  have fresh: "load_cache (w_files example_world) (w_clean example_world) True
        ''outdir/.label_generate_posterior_cache.pickle'' example_table =
      \<lparr>cache_samples = example_table, cache_blocks = []\<rparr>"
    by (rule all [THEN conjunct1])
  from all [THEN conjunct2, THEN conjunct2, rule_format, OF rows draws]
  obtain df' where a: "assign_columns (array_dtype (concat ?vals))
                          (map (map (astype (array_dtype (concat ?vals)))) ?vals)
                          (enumerate 0 (marginalized_parameters example_likelihood)) example_table =
                        (Inr (), df')"
    and run: "generate_posterior_samples_from_marginalized_likelihood
        example_world 0 example_likelihood 1 2 True =
      Some \<lparr>result = Inr 0,
            world_after = example_world\<lparr>w_files :=
                (if True
                 then (w_files example_world)(''outdir/.label_generate_posterior_cache.pickle'' \<mapsto>
                        Pickled \<lparr>cache_samples = example_table,
                                 cache_blocks = chunks 2 0 ?vals\<rparr>)
                 else w_files example_world),
              w_store := (w_store example_world)(0 := Table df')\<rparr>,
            likelihood_after = ?lik, filled = [0..<df_nrows example_table]\<rparr>"
    by blast
  from a have "(Inr (), ?df) = (Inr () :: error + unit, df')" by (simp only: dt cols)
  then have df': "df' = ?df" by simp
  have run': "generate_posterior_samples_from_marginalized_likelihood
        example_world 0 example_likelihood 1 2 True =
      Some \<lparr>result = Inr 0,
            world_after = example_world\<lparr>w_files :=
                (w_files example_world)(''outdir/.label_generate_posterior_cache.pickle'' \<mapsto>
                   Pickled \<lparr>cache_samples = example_table,
                            cache_blocks = [(0, [[Num 100], [Num 100]]), (2, [[Num 100]])]\<rparr>),
              w_store := (w_store example_world)(0 := Table ?df)\<rparr>,
            likelihood_after = ?lik, filled = [0..<df_nrows example_table]\<rparr>"
    using run by (simp only: df' blocks if_True)
  from table marg od lb stored block stale rows draws fresh run' show ?thesis
    by (intro conjI)
qed

end
